theory Spec2Isabelle
  imports Complex_Main "HOL-Library.Word"
begin

unbundle bit_operations_syntax

section \<open>Data model of the pairwise aligner\<close>

text \<open>
  The C type \<open>double\<close> is modelled by \<^typ>\<open>real\<close>: finite values with exact arithmetic.
  Rounding, infinities and NaN are outside the model, so every statement below about
  scores is a statement about the program run in exact arithmetic (which is what the
  C code computes whenever all scores are integers of moderate size).
\<close>

type_synonym double = real

text \<open>
  The header \<open>_pairwisealigner.h\<close> is not part of the sources at hand. It declares the
  enumerations \<open>Mode\<close> and \<open>Algorithm\<close>, the struct \<open>Aligner\<close> and the direction bits.
  The enumerators and the fields are taken as the C file uses them.
\<close>

datatype Mode = Global | Local | FOGSAA_Mode

datatype Algorithm =
  NeedlemanWunschSmithWaterman | Gotoh | WatermanSmithBeyer | FOGSAA | Unknown

text \<open>
  Python exceptions raised through \<open>PyErr_SetString\<close>, \<open>PyErr_Format\<close> and
  \<open>PyErr_NoMemory\<close>, with the message of the source where it is a constant string.
  \<open>WarningRaised\<close> is the exception that \<open>PyErr_WarnEx\<close> leaves behind when the warning
  filter of the interpreter turns a warning into an error.
\<close>

datatype py_error =
  ValueError string
| TypeError string
| RuntimeError string
| OverflowError string
| MemoryError
| WarningRaised string

text \<open>
  A Python callable used as gap score function: the identity of the object (the C code
  compares the two pointers) and what a call \<open>f(i, j)\<close> followed by
  \<open>PyFloat_AsDouble\<close> yields.
\<close>

datatype py_function =
  PyFunction (func_id: nat) (func_call: "int \<Rightarrow> int \<Rightarrow> py_error + double")

text \<open>
  The \<open>Py_buffer\<close> view of a substitution matrix, as \<open>PyObject_GetBuffer\<close> with
  \<open>PyBUF_FORMAT | PyBUF_ND\<close> fills it in, read as an array of \<open>double\<close>. \<open>array_mapping\<close> is
  the \<open>mapping\<close> buffer of a \<open>substitution_matrices.Array\<close> object (an array of
  \<open>int\<close>), absent for any other object and for an \<open>Array\<close> without alphabet mapping.
\<close>

record Matrix_buffer =
  m_ndim :: int
  m_len :: int
  m_format :: string
  m_itemsize :: int
  m_shape :: "int list"
  m_buf :: "double list"
  array_mapping :: "int list option"

text \<open>
  The Python objects that reach the setters: \<open>None\<close>, a number (anything
  \<open>PyFloat_AsDouble\<close> converts), a string (its code points), a callable, an object
  exporting a buffer, and any other object.
\<close>

datatype pyobj =
  Py_None
| PyFloat double
| PyUnicode "nat list"
| PyCallable py_function
| PyBufferObject Matrix_buffer
| PyOther

record Aligner =
  mode :: Mode
  algorithm :: Algorithm
  match :: double
  mismatch :: double
  epsilon :: double
  open_internal_insertion_score :: double
  extend_internal_insertion_score :: double
  open_left_insertion_score :: double
  extend_left_insertion_score :: double
  open_right_insertion_score :: double
  extend_right_insertion_score :: double
  open_internal_deletion_score :: double
  extend_internal_deletion_score :: double
  open_left_deletion_score :: double
  extend_left_deletion_score :: double
  open_right_deletion_score :: double
  extend_right_deletion_score :: double
  insertion_score_function :: "py_function option"
  deletion_score_function :: "py_function option"
  substitution_matrix :: "Matrix_buffer option"
  wildcard :: int

definition PyFloat_AsDouble :: "pyobj \<Rightarrow> py_error + double" where
  "PyFloat_AsDouble v =
     (case v of PyFloat x \<Rightarrow> Inr x | _ \<Rightarrow> Inl (TypeError ''must be real number''))"

definition PyCallable_Check :: "pyobj \<Rightarrow> bool" where
  "PyCallable_Check v = (case v of PyCallable f \<Rightarrow> True | _ \<Rightarrow> False)"

section \<open>ScoringModel: initialisation and algorithm selection\<close>

definition Aligner_init :: Aligner where
  "Aligner_init = \<lparr>
     mode = Global,
     algorithm = Unknown,
     match = 1,
     mismatch = 0,
     epsilon = 1 / 1000000,
     open_internal_insertion_score = 0,
     extend_internal_insertion_score = 0,
     open_left_insertion_score = 0,
     extend_left_insertion_score = 0,
     open_right_insertion_score = 0,
     extend_right_insertion_score = 0,
     open_internal_deletion_score = 0,
     extend_internal_deletion_score = 0,
     open_left_deletion_score = 0,
     extend_left_deletion_score = 0,
     open_right_deletion_score = 0,
     extend_right_deletion_score = 0,
     insertion_score_function = None,
     deletion_score_function = None,
     substitution_matrix = None,
     wildcard = - 1 \<rparr>"

text \<open>
  \<open>_get_algorithm\<close>: returns the memoized algorithm, deriving and storing it first when
  the field is \<open>Unknown\<close>. The updated object is returned with the answer.
\<close>

definition get_algorithm :: "Aligner \<Rightarrow> Algorithm \<times> Aligner" where
  "get_algorithm self =
     (if algorithm self = Unknown then
        (let a =
           (if mode self = FOGSAA_Mode then FOGSAA
            else if insertion_score_function self \<noteq> None \<or> deletion_score_function self \<noteq> None
              then WatermanSmithBeyer
            else if open_internal_insertion_score self = extend_internal_insertion_score self
                  \<and> open_internal_deletion_score self = extend_internal_deletion_score self
                  \<and> open_left_insertion_score self = extend_left_insertion_score self
                  \<and> open_right_insertion_score self = extend_right_insertion_score self
                  \<and> open_left_deletion_score self = extend_left_deletion_score self
                  \<and> open_right_deletion_score self = extend_right_deletion_score self
              then NeedlemanWunschSmithWaterman
            else Gotoh)
         in (a, self\<lparr>algorithm := a\<rparr>))
      else (algorithm self, self))"

text \<open>
  The selection rule in the words of the specification (section 3): the first match of
  (1) FOGSAA mode, (2) either gap score function set, (3) every open score equal to its
  corresponding extend score, over the three positions and the two gap kinds, (4) Gotoh.
\<close>

datatype gap_position = Internal | Left | Right

datatype gap_kind = Insertion | Deletion

fun open_score :: "gap_position \<Rightarrow> gap_kind \<Rightarrow> Aligner \<Rightarrow> double" where
  "open_score Internal Insertion = open_internal_insertion_score"
| "open_score Left Insertion = open_left_insertion_score"
| "open_score Right Insertion = open_right_insertion_score"
| "open_score Internal Deletion = open_internal_deletion_score"
| "open_score Left Deletion = open_left_deletion_score"
| "open_score Right Deletion = open_right_deletion_score"

fun extend_score :: "gap_position \<Rightarrow> gap_kind \<Rightarrow> Aligner \<Rightarrow> double" where
  "extend_score Internal Insertion = extend_internal_insertion_score"
| "extend_score Left Insertion = extend_left_insertion_score"
| "extend_score Right Insertion = extend_right_insertion_score"
| "extend_score Internal Deletion = extend_internal_deletion_score"
| "extend_score Left Deletion = extend_left_deletion_score"
| "extend_score Right Deletion = extend_right_deletion_score"

definition linear_gaps :: "Aligner \<Rightarrow> bool" where
  "linear_gaps self =
     list_all (\<lambda>(p, k). open_score p k self = extend_score p k self)
       (List.product [Internal, Left, Right] [Insertion, Deletion])"

definition selection_rule :: "Aligner \<Rightarrow> Algorithm" where
  "selection_rule self =
     (if mode self = FOGSAA_Mode then FOGSAA
      else if insertion_score_function self \<noteq> None \<or> deletion_score_function self \<noteq> None
        then WatermanSmithBeyer
      else if linear_gaps self then NeedlemanWunschSmithWaterman
      else Gotoh)"

section \<open>ScoringModel: the setters\<close>

text \<open>
  A setter returns \<open>0\<close> (here \<open>None\<close>) or \<open>-1\<close> with a Python exception set (here
  \<open>Some e\<close>), and the object as it leaves it, which matters for \<open>Aligner_set_mode\<close>:
  it clears the memoized algorithm before it looks at the value.
\<close>

definition ascii :: "string \<Rightarrow> nat list" where
  "ascii s = map of_char s"

definition invalid_mode_message :: string where
  "invalid_mode_message = ''invalid mode (expected 'global', 'local', or 'fogsaa'' @ [CHR 0x27]"

definition Aligner_set_mode :: "pyobj \<Rightarrow> Aligner \<Rightarrow> py_error option \<times> Aligner" where
  "Aligner_set_mode value self =
     (let self = self\<lparr>algorithm := Unknown\<rparr> in
      case value of
        PyUnicode s \<Rightarrow>
          (if s = ascii ''global'' then (None, self\<lparr>mode := Global\<rparr>)
           else if s = ascii ''local'' then (None, self\<lparr>mode := Local\<rparr>)
           else if s = ascii ''fogsaa'' then (None, self\<lparr>mode := FOGSAA_Mode\<rparr>)
           else (Some (ValueError invalid_mode_message), self))
      | _ \<Rightarrow> (Some (ValueError invalid_mode_message), self))"

definition Aligner_set_match_score :: "pyobj \<Rightarrow> Aligner \<Rightarrow> py_error option \<times> Aligner" where
  "Aligner_set_match_score value self =
     (case PyFloat_AsDouble value of
        Inl e \<Rightarrow> (Some (ValueError ''invalid match score''), self)
      | Inr m \<Rightarrow> (None, self\<lparr>substitution_matrix := None, match := m\<rparr>))"

definition Aligner_set_mismatch_score :: "pyobj \<Rightarrow> Aligner \<Rightarrow> py_error option \<times> Aligner" where
  "Aligner_set_mismatch_score value self =
     (case PyFloat_AsDouble value of
        Inl e \<Rightarrow> (Some (ValueError ''invalid mismatch score''), self)
      | Inr m \<Rightarrow> (None, self\<lparr>substitution_matrix := None, mismatch := m\<rparr>))"

text \<open>
  \<open>substitution_matrix_converter\<close> for a non-null argument: the checks on the exported
  buffer, in the order of the source (\<open>sizeof(double)\<close> is 8).
\<close>

definition substitution_matrix_converter :: "pyobj \<Rightarrow> py_error + Matrix_buffer" where
  "substitution_matrix_converter argument =
     (case argument of
        PyBufferObject view \<Rightarrow>
         (if m_ndim view \<noteq> 2 then
            Inl (ValueError ''substitution matrix has incorrect rank (%d expected 2)'')
          else if m_len view = 0 then Inl (ValueError ''substitution matrix has zero size'')
          else if m_format view \<noteq> ''d'' then
            Inl (ValueError ''substitution matrix should contain float values'')
          else if m_itemsize view \<noteq> 8 then
            Inl (RuntimeError
              ''substitution matrix has unexpected item byte size (%zd, expected %zd)'')
          else if m_shape view ! 0 \<noteq> m_shape view ! 1 then
            Inl (ValueError ''substitution matrix should be square (found a %zd x %zd matrix)'')
          else Inr view)
      | _ \<Rightarrow> Inl (ValueError ''expected a matrix''))"

definition Aligner_set_substitution_matrix ::
    "pyobj \<Rightarrow> Aligner \<Rightarrow> py_error option \<times> Aligner" where
  "Aligner_set_substitution_matrix values self =
     (case values of
        Py_None \<Rightarrow> (None, self\<lparr>substitution_matrix := None\<rparr>)
      | _ \<Rightarrow>
          (case substitution_matrix_converter values of
             Inl e \<Rightarrow> (Some e, self)
           | Inr view \<Rightarrow> (None, self\<lparr>substitution_matrix := Some view\<rparr>)))"

definition Aligner_set_gap_score :: "pyobj \<Rightarrow> Aligner \<Rightarrow> py_error option \<times> Aligner" where
  "Aligner_set_gap_score value self =
     (case value of
        PyCallable f \<Rightarrow>
          (None, self\<lparr>
             insertion_score_function := Some f,
             deletion_score_function := Some f,
             algorithm := Unknown\<rparr>)
      | _ \<Rightarrow>
          (case PyFloat_AsDouble value of
             Inl e \<Rightarrow> (Some e, self)
           | Inr score \<Rightarrow> (None, self\<lparr>
               insertion_score_function := None,
               deletion_score_function := None,
               open_internal_insertion_score := score,
               extend_internal_insertion_score := score,
               open_left_insertion_score := score,
               extend_left_insertion_score := score,
               open_right_insertion_score := score,
               extend_right_insertion_score := score,
               open_internal_deletion_score := score,
               extend_internal_deletion_score := score,
               open_left_deletion_score := score,
               extend_left_deletion_score := score,
               open_right_deletion_score := score,
               extend_right_deletion_score := score,
               algorithm := Unknown\<rparr>)))"

definition Aligner_set_insertion_score :: "pyobj \<Rightarrow> Aligner \<Rightarrow> py_error option \<times> Aligner" where
  "Aligner_set_insertion_score value self =
     (case value of
        PyCallable f \<Rightarrow>
          (None, self\<lparr>insertion_score_function := Some f, algorithm := Unknown\<rparr>)
      | _ \<Rightarrow>
          (case PyFloat_AsDouble value of
             Inl e \<Rightarrow> (Some (ValueError ''gap score should be numerical or callable''), self)
           | Inr score \<Rightarrow> (None, self\<lparr>
               open_internal_insertion_score := score,
               extend_internal_insertion_score := score,
               open_left_insertion_score := score,
               extend_left_insertion_score := score,
               open_right_insertion_score := score,
               extend_right_insertion_score := score,
               insertion_score_function := None,
               algorithm := Unknown\<rparr>)))"

definition Aligner_set_deletion_score :: "pyobj \<Rightarrow> Aligner \<Rightarrow> py_error option \<times> Aligner" where
  "Aligner_set_deletion_score value self =
     (case value of
        PyCallable f \<Rightarrow>
          (None, self\<lparr>deletion_score_function := Some f, algorithm := Unknown\<rparr>)
      | _ \<Rightarrow>
          (case PyFloat_AsDouble value of
             Inl e \<Rightarrow> (Some (ValueError ''gap score should be numerical or callable''), self)
           | Inr score \<Rightarrow> (None, self\<lparr>
               open_internal_deletion_score := score,
               extend_internal_deletion_score := score,
               open_left_deletion_score := score,
               extend_left_deletion_score := score,
               open_right_deletion_score := score,
               extend_right_deletion_score := score,
               deletion_score_function := None,
               algorithm := Unknown\<rparr>)))"

definition Aligner_set_epsilon :: "pyobj \<Rightarrow> Aligner \<Rightarrow> py_error option \<times> Aligner" where
  "Aligner_set_epsilon value self =
     (case PyFloat_AsDouble value of
        Inl e \<Rightarrow> (Some e, self)
      | Inr eps \<Rightarrow> (None, self\<lparr>epsilon := eps, algorithm := Unknown\<rparr>))"

definition Aligner_set_wildcard :: "pyobj \<Rightarrow> Aligner \<Rightarrow> py_error option \<times> Aligner" where
  "Aligner_set_wildcard value self =
     (case value of
        Py_None \<Rightarrow> (None, self\<lparr>wildcard := - 1\<rparr>)
      | PyUnicode s \<Rightarrow>
          (if length s \<noteq> 1 then
             (Some (ValueError ''wildcard should be a single character, or None''), self)
           else (None, self\<lparr>wildcard := int (s ! 0)\<rparr>))
      | _ \<Rightarrow> (Some (TypeError ''wildcard should be a single character, or None''), self))"

definition Aligner_set_open_gap_score :: "pyobj \<Rightarrow> Aligner \<Rightarrow> py_error option \<times> Aligner" where
  "Aligner_set_open_gap_score value self =
     (case PyFloat_AsDouble value of
        Inl e \<Rightarrow> (Some e, self)
      | Inr score \<Rightarrow> (None, self\<lparr>
          insertion_score_function := None,
          deletion_score_function := None,
          open_internal_insertion_score := score,
          open_left_insertion_score := score,
          open_right_insertion_score := score,
          open_internal_deletion_score := score,
          open_left_deletion_score := score,
          open_right_deletion_score := score,
          algorithm := Unknown\<rparr>))"

definition Aligner_set_extend_gap_score :: "pyobj \<Rightarrow> Aligner \<Rightarrow> py_error option \<times> Aligner" where
  "Aligner_set_extend_gap_score value self =
     (case PyFloat_AsDouble value of
        Inl e \<Rightarrow> (Some e, self)
      | Inr score \<Rightarrow> (None, self\<lparr>
          insertion_score_function := None,
          deletion_score_function := None,
          extend_internal_insertion_score := score,
          extend_left_insertion_score := score,
          extend_right_insertion_score := score,
          extend_internal_deletion_score := score,
          extend_left_deletion_score := score,
          extend_right_deletion_score := score,
          algorithm := Unknown\<rparr>))"

definition Aligner_set_internal_gap_score :: "pyobj \<Rightarrow> Aligner \<Rightarrow> py_error option \<times> Aligner" where
  "Aligner_set_internal_gap_score value self =
     (case PyFloat_AsDouble value of
        Inl e \<Rightarrow> (Some e, self)
      | Inr score \<Rightarrow> (None, self\<lparr>
          insertion_score_function := None,
          deletion_score_function := None,
          open_internal_insertion_score := score,
          extend_internal_insertion_score := score,
          open_internal_deletion_score := score,
          extend_internal_deletion_score := score,
          algorithm := Unknown\<rparr>))"

definition Aligner_set_open_internal_gap_score :: "pyobj \<Rightarrow> Aligner \<Rightarrow> py_error option \<times> Aligner" where
  "Aligner_set_open_internal_gap_score value self =
     (case PyFloat_AsDouble value of
        Inl e \<Rightarrow> (Some e, self)
      | Inr score \<Rightarrow> (None, self\<lparr>
          insertion_score_function := None,
          deletion_score_function := None,
          open_internal_insertion_score := score,
          open_internal_deletion_score := score,
          algorithm := Unknown\<rparr>))"

definition Aligner_set_extend_internal_gap_score :: "pyobj \<Rightarrow> Aligner \<Rightarrow> py_error option \<times> Aligner" where
  "Aligner_set_extend_internal_gap_score value self =
     (case PyFloat_AsDouble value of
        Inl e \<Rightarrow> (Some e, self)
      | Inr score \<Rightarrow> (None, self\<lparr>
          insertion_score_function := None,
          deletion_score_function := None,
          extend_internal_insertion_score := score,
          extend_internal_deletion_score := score,
          algorithm := Unknown\<rparr>))"

definition Aligner_set_end_gap_score :: "pyobj \<Rightarrow> Aligner \<Rightarrow> py_error option \<times> Aligner" where
  "Aligner_set_end_gap_score value self =
     (case PyFloat_AsDouble value of
        Inl e \<Rightarrow> (Some e, self)
      | Inr score \<Rightarrow> (None, self\<lparr>
          insertion_score_function := None,
          deletion_score_function := None,
          open_left_insertion_score := score,
          extend_left_insertion_score := score,
          open_right_insertion_score := score,
          extend_right_insertion_score := score,
          open_left_deletion_score := score,
          extend_left_deletion_score := score,
          open_right_deletion_score := score,
          extend_right_deletion_score := score,
          algorithm := Unknown\<rparr>))"

definition Aligner_set_open_end_gap_score :: "pyobj \<Rightarrow> Aligner \<Rightarrow> py_error option \<times> Aligner" where
  "Aligner_set_open_end_gap_score value self =
     (case PyFloat_AsDouble value of
        Inl e \<Rightarrow> (Some e, self)
      | Inr score \<Rightarrow> (None, self\<lparr>
          insertion_score_function := None,
          deletion_score_function := None,
          open_left_insertion_score := score,
          open_right_insertion_score := score,
          open_left_deletion_score := score,
          open_right_deletion_score := score,
          algorithm := Unknown\<rparr>))"

definition Aligner_set_extend_end_gap_score :: "pyobj \<Rightarrow> Aligner \<Rightarrow> py_error option \<times> Aligner" where
  "Aligner_set_extend_end_gap_score value self =
     (case PyFloat_AsDouble value of
        Inl e \<Rightarrow> (Some e, self)
      | Inr score \<Rightarrow> (None, self\<lparr>
          insertion_score_function := None,
          deletion_score_function := None,
          extend_left_insertion_score := score,
          extend_right_insertion_score := score,
          extend_left_deletion_score := score,
          extend_right_deletion_score := score,
          algorithm := Unknown\<rparr>))"

definition Aligner_set_left_gap_score :: "pyobj \<Rightarrow> Aligner \<Rightarrow> py_error option \<times> Aligner" where
  "Aligner_set_left_gap_score value self =
     (case PyFloat_AsDouble value of
        Inl e \<Rightarrow> (Some e, self)
      | Inr score \<Rightarrow> (None, self\<lparr>
          insertion_score_function := None,
          deletion_score_function := None,
          open_left_insertion_score := score,
          extend_left_insertion_score := score,
          open_left_deletion_score := score,
          extend_left_deletion_score := score,
          algorithm := Unknown\<rparr>))"

definition Aligner_set_right_gap_score :: "pyobj \<Rightarrow> Aligner \<Rightarrow> py_error option \<times> Aligner" where
  "Aligner_set_right_gap_score value self =
     (case PyFloat_AsDouble value of
        Inl e \<Rightarrow> (Some e, self)
      | Inr score \<Rightarrow> (None, self\<lparr>
          insertion_score_function := None,
          deletion_score_function := None,
          open_right_insertion_score := score,
          extend_right_insertion_score := score,
          open_right_deletion_score := score,
          extend_right_deletion_score := score,
          algorithm := Unknown\<rparr>))"

definition Aligner_set_open_left_gap_score :: "pyobj \<Rightarrow> Aligner \<Rightarrow> py_error option \<times> Aligner" where
  "Aligner_set_open_left_gap_score value self =
     (case PyFloat_AsDouble value of
        Inl e \<Rightarrow> (Some e, self)
      | Inr score \<Rightarrow> (None, self\<lparr>
          insertion_score_function := None,
          deletion_score_function := None,
          open_left_insertion_score := score,
          open_left_deletion_score := score,
          algorithm := Unknown\<rparr>))"

definition Aligner_set_extend_left_gap_score :: "pyobj \<Rightarrow> Aligner \<Rightarrow> py_error option \<times> Aligner" where
  "Aligner_set_extend_left_gap_score value self =
     (case PyFloat_AsDouble value of
        Inl e \<Rightarrow> (Some e, self)
      | Inr score \<Rightarrow> (None, self\<lparr>
          insertion_score_function := None,
          deletion_score_function := None,
          extend_left_insertion_score := score,
          extend_left_deletion_score := score,
          algorithm := Unknown\<rparr>))"

definition Aligner_set_open_right_gap_score :: "pyobj \<Rightarrow> Aligner \<Rightarrow> py_error option \<times> Aligner" where
  "Aligner_set_open_right_gap_score value self =
     (case PyFloat_AsDouble value of
        Inl e \<Rightarrow> (Some e, self)
      | Inr score \<Rightarrow> (None, self\<lparr>
          insertion_score_function := None,
          deletion_score_function := None,
          open_right_insertion_score := score,
          open_right_deletion_score := score,
          algorithm := Unknown\<rparr>))"

definition Aligner_set_extend_right_gap_score :: "pyobj \<Rightarrow> Aligner \<Rightarrow> py_error option \<times> Aligner" where
  "Aligner_set_extend_right_gap_score value self =
     (case PyFloat_AsDouble value of
        Inl e \<Rightarrow> (Some e, self)
      | Inr score \<Rightarrow> (None, self\<lparr>
          insertion_score_function := None,
          deletion_score_function := None,
          extend_right_insertion_score := score,
          extend_right_deletion_score := score,
          algorithm := Unknown\<rparr>))"

definition Aligner_set_open_insertion_score :: "pyobj \<Rightarrow> Aligner \<Rightarrow> py_error option \<times> Aligner" where
  "Aligner_set_open_insertion_score value self =
     (case PyFloat_AsDouble value of
        Inl e \<Rightarrow> (Some e, self)
      | Inr score \<Rightarrow> (None, self\<lparr>
          insertion_score_function := None,
          open_internal_insertion_score := score,
          open_left_insertion_score := score,
          open_right_insertion_score := score,
          algorithm := Unknown\<rparr>))"

definition Aligner_set_extend_insertion_score :: "pyobj \<Rightarrow> Aligner \<Rightarrow> py_error option \<times> Aligner" where
  "Aligner_set_extend_insertion_score value self =
     (case PyFloat_AsDouble value of
        Inl e \<Rightarrow> (Some e, self)
      | Inr score \<Rightarrow> (None, self\<lparr>
          insertion_score_function := None,
          extend_internal_insertion_score := score,
          extend_left_insertion_score := score,
          extend_right_insertion_score := score,
          algorithm := Unknown\<rparr>))"

definition Aligner_set_open_deletion_score :: "pyobj \<Rightarrow> Aligner \<Rightarrow> py_error option \<times> Aligner" where
  "Aligner_set_open_deletion_score value self =
     (case PyFloat_AsDouble value of
        Inl e \<Rightarrow> (Some e, self)
      | Inr score \<Rightarrow> (None, self\<lparr>
          deletion_score_function := None,
          open_internal_deletion_score := score,
          open_left_deletion_score := score,
          open_right_deletion_score := score,
          algorithm := Unknown\<rparr>))"

definition Aligner_set_extend_deletion_score :: "pyobj \<Rightarrow> Aligner \<Rightarrow> py_error option \<times> Aligner" where
  "Aligner_set_extend_deletion_score value self =
     (case PyFloat_AsDouble value of
        Inl e \<Rightarrow> (Some e, self)
      | Inr score \<Rightarrow> (None, self\<lparr>
          deletion_score_function := None,
          extend_internal_deletion_score := score,
          extend_left_deletion_score := score,
          extend_right_deletion_score := score,
          algorithm := Unknown\<rparr>))"

definition Aligner_set_open_internal_insertion_score :: "pyobj \<Rightarrow> Aligner \<Rightarrow> py_error option \<times> Aligner" where
  "Aligner_set_open_internal_insertion_score value self =
     (case PyFloat_AsDouble value of
        Inl e \<Rightarrow> (Some e, self)
      | Inr score \<Rightarrow> (None, self\<lparr>
          insertion_score_function := None,
          open_internal_insertion_score := score,
          algorithm := Unknown\<rparr>))"

definition Aligner_set_extend_internal_insertion_score :: "pyobj \<Rightarrow> Aligner \<Rightarrow> py_error option \<times> Aligner" where
  "Aligner_set_extend_internal_insertion_score value self =
     (case PyFloat_AsDouble value of
        Inl e \<Rightarrow> (Some e, self)
      | Inr score \<Rightarrow> (None, self\<lparr>
          insertion_score_function := None,
          extend_internal_insertion_score := score,
          algorithm := Unknown\<rparr>))"

definition Aligner_set_internal_insertion_score :: "pyobj \<Rightarrow> Aligner \<Rightarrow> py_error option \<times> Aligner" where
  "Aligner_set_internal_insertion_score value self =
     (case PyFloat_AsDouble value of
        Inl e \<Rightarrow> (Some e, self)
      | Inr score \<Rightarrow> (None, self\<lparr>
          insertion_score_function := None,
          open_internal_insertion_score := score,
          extend_internal_insertion_score := score,
          algorithm := Unknown\<rparr>))"

definition Aligner_set_end_insertion_score :: "pyobj \<Rightarrow> Aligner \<Rightarrow> py_error option \<times> Aligner" where
  "Aligner_set_end_insertion_score value self =
     (case PyFloat_AsDouble value of
        Inl e \<Rightarrow> (Some e, self)
      | Inr score \<Rightarrow> (None, self\<lparr>
          insertion_score_function := None,
          open_left_insertion_score := score,
          extend_left_insertion_score := score,
          open_right_insertion_score := score,
          extend_right_insertion_score := score,
          algorithm := Unknown\<rparr>))"

definition Aligner_set_open_end_insertion_score :: "pyobj \<Rightarrow> Aligner \<Rightarrow> py_error option \<times> Aligner" where
  "Aligner_set_open_end_insertion_score value self =
     (case PyFloat_AsDouble value of
        Inl e \<Rightarrow> (Some e, self)
      | Inr score \<Rightarrow> (None, self\<lparr>
          insertion_score_function := None,
          open_left_insertion_score := score,
          open_right_insertion_score := score,
          algorithm := Unknown\<rparr>))"

definition Aligner_set_extend_end_insertion_score :: "pyobj \<Rightarrow> Aligner \<Rightarrow> py_error option \<times> Aligner" where
  "Aligner_set_extend_end_insertion_score value self =
     (case PyFloat_AsDouble value of
        Inl e \<Rightarrow> (Some e, self)
      | Inr score \<Rightarrow> (None, self\<lparr>
          insertion_score_function := None,
          extend_left_insertion_score := score,
          extend_right_insertion_score := score,
          algorithm := Unknown\<rparr>))"

definition Aligner_set_open_left_insertion_score :: "pyobj \<Rightarrow> Aligner \<Rightarrow> py_error option \<times> Aligner" where
  "Aligner_set_open_left_insertion_score value self =
     (case PyFloat_AsDouble value of
        Inl e \<Rightarrow> (Some e, self)
      | Inr score \<Rightarrow> (None, self\<lparr>
          insertion_score_function := None,
          open_left_insertion_score := score,
          algorithm := Unknown\<rparr>))"

definition Aligner_set_extend_left_insertion_score :: "pyobj \<Rightarrow> Aligner \<Rightarrow> py_error option \<times> Aligner" where
  "Aligner_set_extend_left_insertion_score value self =
     (case PyFloat_AsDouble value of
        Inl e \<Rightarrow> (Some e, self)
      | Inr score \<Rightarrow> (None, self\<lparr>
          insertion_score_function := None,
          extend_left_insertion_score := score,
          algorithm := Unknown\<rparr>))"

definition Aligner_set_left_insertion_score :: "pyobj \<Rightarrow> Aligner \<Rightarrow> py_error option \<times> Aligner" where
  "Aligner_set_left_insertion_score value self =
     (case PyFloat_AsDouble value of
        Inl e \<Rightarrow> (Some e, self)
      | Inr score \<Rightarrow> (None, self\<lparr>
          insertion_score_function := None,
          open_left_insertion_score := score,
          extend_left_insertion_score := score,
          algorithm := Unknown\<rparr>))"

definition Aligner_set_open_right_insertion_score :: "pyobj \<Rightarrow> Aligner \<Rightarrow> py_error option \<times> Aligner" where
  "Aligner_set_open_right_insertion_score value self =
     (case PyFloat_AsDouble value of
        Inl e \<Rightarrow> (Some e, self)
      | Inr score \<Rightarrow> (None, self\<lparr>
          insertion_score_function := None,
          open_right_insertion_score := score,
          algorithm := Unknown\<rparr>))"

definition Aligner_set_extend_right_insertion_score :: "pyobj \<Rightarrow> Aligner \<Rightarrow> py_error option \<times> Aligner" where
  "Aligner_set_extend_right_insertion_score value self =
     (case PyFloat_AsDouble value of
        Inl e \<Rightarrow> (Some e, self)
      | Inr score \<Rightarrow> (None, self\<lparr>
          insertion_score_function := None,
          extend_right_insertion_score := score,
          algorithm := Unknown\<rparr>))"

definition Aligner_set_right_insertion_score :: "pyobj \<Rightarrow> Aligner \<Rightarrow> py_error option \<times> Aligner" where
  "Aligner_set_right_insertion_score value self =
     (case PyFloat_AsDouble value of
        Inl e \<Rightarrow> (Some e, self)
      | Inr score \<Rightarrow> (None, self\<lparr>
          insertion_score_function := None,
          open_right_insertion_score := score,
          extend_right_insertion_score := score,
          algorithm := Unknown\<rparr>))"

definition Aligner_set_end_deletion_score :: "pyobj \<Rightarrow> Aligner \<Rightarrow> py_error option \<times> Aligner" where
  "Aligner_set_end_deletion_score value self =
     (case PyFloat_AsDouble value of
        Inl e \<Rightarrow> (Some e, self)
      | Inr score \<Rightarrow> (None, self\<lparr>
          deletion_score_function := None,
          open_left_deletion_score := score,
          extend_left_deletion_score := score,
          open_right_deletion_score := score,
          extend_right_deletion_score := score,
          algorithm := Unknown\<rparr>))"

definition Aligner_set_open_end_deletion_score :: "pyobj \<Rightarrow> Aligner \<Rightarrow> py_error option \<times> Aligner" where
  "Aligner_set_open_end_deletion_score value self =
     (case PyFloat_AsDouble value of
        Inl e \<Rightarrow> (Some e, self)
      | Inr score \<Rightarrow> (None, self\<lparr>
          deletion_score_function := None,
          open_left_deletion_score := score,
          open_right_deletion_score := score,
          algorithm := Unknown\<rparr>))"

definition Aligner_set_extend_end_deletion_score :: "pyobj \<Rightarrow> Aligner \<Rightarrow> py_error option \<times> Aligner" where
  "Aligner_set_extend_end_deletion_score value self =
     (case PyFloat_AsDouble value of
        Inl e \<Rightarrow> (Some e, self)
      | Inr score \<Rightarrow> (None, self\<lparr>
          deletion_score_function := None,
          extend_left_deletion_score := score,
          extend_right_deletion_score := score,
          algorithm := Unknown\<rparr>))"

definition Aligner_set_open_internal_deletion_score :: "pyobj \<Rightarrow> Aligner \<Rightarrow> py_error option \<times> Aligner" where
  "Aligner_set_open_internal_deletion_score value self =
     (case PyFloat_AsDouble value of
        Inl e \<Rightarrow> (Some e, self)
      | Inr score \<Rightarrow> (None, self\<lparr>
          deletion_score_function := None,
          open_internal_deletion_score := score,
          algorithm := Unknown\<rparr>))"

definition Aligner_set_extend_internal_deletion_score :: "pyobj \<Rightarrow> Aligner \<Rightarrow> py_error option \<times> Aligner" where
  "Aligner_set_extend_internal_deletion_score value self =
     (case PyFloat_AsDouble value of
        Inl e \<Rightarrow> (Some e, self)
      | Inr score \<Rightarrow> (None, self\<lparr>
          deletion_score_function := None,
          extend_internal_deletion_score := score,
          algorithm := Unknown\<rparr>))"

definition Aligner_set_internal_deletion_score :: "pyobj \<Rightarrow> Aligner \<Rightarrow> py_error option \<times> Aligner" where
  "Aligner_set_internal_deletion_score value self =
     (case PyFloat_AsDouble value of
        Inl e \<Rightarrow> (Some e, self)
      | Inr score \<Rightarrow> (None, self\<lparr>
          deletion_score_function := None,
          open_internal_deletion_score := score,
          extend_internal_deletion_score := score,
          algorithm := Unknown\<rparr>))"

definition Aligner_set_open_left_deletion_score :: "pyobj \<Rightarrow> Aligner \<Rightarrow> py_error option \<times> Aligner" where
  "Aligner_set_open_left_deletion_score value self =
     (case PyFloat_AsDouble value of
        Inl e \<Rightarrow> (Some e, self)
      | Inr score \<Rightarrow> (None, self\<lparr>
          deletion_score_function := None,
          open_left_deletion_score := score,
          algorithm := Unknown\<rparr>))"

definition Aligner_set_extend_left_deletion_score :: "pyobj \<Rightarrow> Aligner \<Rightarrow> py_error option \<times> Aligner" where
  "Aligner_set_extend_left_deletion_score value self =
     (case PyFloat_AsDouble value of
        Inl e \<Rightarrow> (Some e, self)
      | Inr score \<Rightarrow> (None, self\<lparr>
          deletion_score_function := None,
          extend_left_deletion_score := score,
          algorithm := Unknown\<rparr>))"

definition Aligner_set_left_deletion_score :: "pyobj \<Rightarrow> Aligner \<Rightarrow> py_error option \<times> Aligner" where
  "Aligner_set_left_deletion_score value self =
     (case PyFloat_AsDouble value of
        Inl e \<Rightarrow> (Some e, self)
      | Inr score \<Rightarrow> (None, self\<lparr>
          deletion_score_function := None,
          open_left_deletion_score := score,
          extend_left_deletion_score := score,
          algorithm := Unknown\<rparr>))"

definition Aligner_set_open_right_deletion_score :: "pyobj \<Rightarrow> Aligner \<Rightarrow> py_error option \<times> Aligner" where
  "Aligner_set_open_right_deletion_score value self =
     (case PyFloat_AsDouble value of
        Inl e \<Rightarrow> (Some e, self)
      | Inr score \<Rightarrow> (None, self\<lparr>
          deletion_score_function := None,
          open_right_deletion_score := score,
          algorithm := Unknown\<rparr>))"

definition Aligner_set_extend_right_deletion_score :: "pyobj \<Rightarrow> Aligner \<Rightarrow> py_error option \<times> Aligner" where
  "Aligner_set_extend_right_deletion_score value self =
     (case PyFloat_AsDouble value of
        Inl e \<Rightarrow> (Some e, self)
      | Inr score \<Rightarrow> (None, self\<lparr>
          deletion_score_function := None,
          extend_right_deletion_score := score,
          algorithm := Unknown\<rparr>))"

definition Aligner_set_right_deletion_score :: "pyobj \<Rightarrow> Aligner \<Rightarrow> py_error option \<times> Aligner" where
  "Aligner_set_right_deletion_score value self =
     (case PyFloat_AsDouble value of
        Inl e \<Rightarrow> (Some e, self)
      | Inr score \<Rightarrow> (None, self\<lparr>
          deletion_score_function := None,
          open_right_deletion_score := score,
          extend_right_deletion_score := score,
          algorithm := Unknown\<rparr>))"

text \<open>
  The table \<open>Aligner_getset\<close>: the attribute names with their setters, in the order of
  the source (\<open>match\<close> and \<open>mismatch\<close> are synonyms; \<open>algorithm\<close> has no setter and is
  left out).
\<close>

definition Aligner_getset ::
    "(string \<times> (pyobj \<Rightarrow> Aligner \<Rightarrow> py_error option \<times> Aligner)) list" where
  "Aligner_getset =
    [(''mode'', Aligner_set_mode),
     (''match_score'', Aligner_set_match_score),
     (''mismatch_score'', Aligner_set_mismatch_score),
     (''match'', Aligner_set_match_score),
     (''mismatch'', Aligner_set_mismatch_score),
     (''substitution_matrix'', Aligner_set_substitution_matrix),
     (''gap_score'', Aligner_set_gap_score),
     (''open_gap_score'', Aligner_set_open_gap_score),
     (''extend_gap_score'', Aligner_set_extend_gap_score),
     (''internal_gap_score'', Aligner_set_internal_gap_score),
     (''open_internal_gap_score'', Aligner_set_open_internal_gap_score),
     (''extend_internal_gap_score'', Aligner_set_extend_internal_gap_score),
     (''end_gap_score'', Aligner_set_end_gap_score),
     (''open_end_gap_score'', Aligner_set_open_end_gap_score),
     (''extend_end_gap_score'', Aligner_set_extend_end_gap_score),
     (''left_gap_score'', Aligner_set_left_gap_score),
     (''open_left_gap_score'', Aligner_set_open_left_gap_score),
     (''extend_left_gap_score'', Aligner_set_extend_left_gap_score),
     (''right_gap_score'', Aligner_set_right_gap_score),
     (''open_right_gap_score'', Aligner_set_open_right_gap_score),
     (''extend_right_gap_score'', Aligner_set_extend_right_gap_score),
     (''open_insertion_score'', Aligner_set_open_insertion_score),
     (''extend_insertion_score'', Aligner_set_extend_insertion_score),
     (''insertion_score'', Aligner_set_insertion_score),
     (''open_deletion_score'', Aligner_set_open_deletion_score),
     (''extend_deletion_score'', Aligner_set_extend_deletion_score),
     (''deletion_score'', Aligner_set_deletion_score),
     (''end_insertion_score'', Aligner_set_end_insertion_score),
     (''open_end_insertion_score'', Aligner_set_open_end_insertion_score),
     (''extend_end_insertion_score'', Aligner_set_extend_end_insertion_score),
     (''open_internal_insertion_score'', Aligner_set_open_internal_insertion_score),
     (''extend_internal_insertion_score'', Aligner_set_extend_internal_insertion_score),
     (''internal_insertion_score'', Aligner_set_internal_insertion_score),
     (''open_left_insertion_score'', Aligner_set_open_left_insertion_score),
     (''extend_left_insertion_score'', Aligner_set_extend_left_insertion_score),
     (''left_insertion_score'', Aligner_set_left_insertion_score),
     (''open_right_insertion_score'', Aligner_set_open_right_insertion_score),
     (''extend_right_insertion_score'', Aligner_set_extend_right_insertion_score),
     (''right_insertion_score'', Aligner_set_right_insertion_score),
     (''end_deletion_score'', Aligner_set_end_deletion_score),
     (''open_end_deletion_score'', Aligner_set_open_end_deletion_score),
     (''extend_end_deletion_score'', Aligner_set_extend_end_deletion_score),
     (''open_internal_deletion_score'', Aligner_set_open_internal_deletion_score),
     (''extend_internal_deletion_score'', Aligner_set_extend_internal_deletion_score),
     (''internal_deletion_score'', Aligner_set_internal_deletion_score),
     (''open_left_deletion_score'', Aligner_set_open_left_deletion_score),
     (''extend_left_deletion_score'', Aligner_set_extend_left_deletion_score),
     (''left_deletion_score'', Aligner_set_left_deletion_score),
     (''open_right_deletion_score'', Aligner_set_open_right_deletion_score),
     (''extend_right_deletion_score'', Aligner_set_extend_right_deletion_score),
     (''right_deletion_score'', Aligner_set_right_deletion_score),
     (''epsilon'', Aligner_set_epsilon),
     (''wildcard'', Aligner_set_wildcard)]"

section \<open>ScoringModel: the aggregate getter of all gap scores\<close>

definition Aligner_get_gap_score :: "Aligner \<Rightarrow> py_error + pyobj" where
  "Aligner_get_gap_score self =
     (if insertion_score_function self \<noteq> None \<or> deletion_score_function self \<noteq> None then
        (if map_option func_id (insertion_score_function self)
              \<noteq> map_option func_id (deletion_score_function self)
         then Inl (ValueError ''gap scores are different'')
         else Inr (PyCallable (the (insertion_score_function self))))
      else
        (let score = open_internal_insertion_score self in
         if score \<noteq> extend_internal_insertion_score self
          \<or> score \<noteq> open_left_insertion_score self
          \<or> score \<noteq> extend_left_insertion_score self
          \<or> score \<noteq> open_right_insertion_score self
          \<or> score \<noteq> extend_right_insertion_score self
          \<or> score \<noteq> open_internal_deletion_score self
          \<or> score \<noteq> extend_internal_deletion_score self
          \<or> score \<noteq> open_left_deletion_score self
          \<or> score \<noteq> extend_left_deletion_score self
          \<or> score \<noteq> open_right_deletion_score self
          \<or> score \<noteq> extend_right_deletion_score self
         then Inl (ValueError ''gap scores are different'')
         else Inr (PyFloat score)))"

text \<open>The twelve gap scalars, and what it is for them to be all equal.\<close>

definition gap_scalars :: "Aligner \<Rightarrow> double list" where
  "gap_scalars self =
     [open_internal_insertion_score self, extend_internal_insertion_score self,
      open_left_insertion_score self, extend_left_insertion_score self,
      open_right_insertion_score self, extend_right_insertion_score self,
      open_internal_deletion_score self, extend_internal_deletion_score self,
      open_left_deletion_score self, extend_left_deletion_score self,
      open_right_deletion_score self, extend_right_deletion_score self]"

definition all_equal :: "double list \<Rightarrow> bool" where
  "all_equal xs = (case xs of [] \<Rightarrow> True | x # ys \<Rightarrow> list_all (\<lambda>y. y = x) ys)"

section \<open>The memoized algorithm under the setters\<close>

text \<open>
  The memo is consistent when it is \<open>Unknown\<close> or holds what the selection rule gives for
  the current parameters.
\<close>

definition cache_consistent :: "Aligner \<Rightarrow> bool" where
  "cache_consistent self = (algorithm self = Unknown \<or> algorithm self = selection_rule self)"

text \<open>
  The attribute names whose setters do not touch the field \<open>algorithm\<close>: the scoring
  parameters, which the selection rule does not read.
\<close>

definition scoring_attributes :: "string list" where
  "scoring_attributes =
     [''match_score'', ''mismatch_score'', ''match'', ''mismatch'',
      ''substitution_matrix'', ''wildcard'']"

definition invalidates :: "(pyobj \<Rightarrow> Aligner \<Rightarrow> py_error option \<times> Aligner) \<Rightarrow> bool" where
  "invalidates setter =
     (\<forall>value self self'. setter value self = (None, self') \<longrightarrow> algorithm self' = Unknown)"

definition keeps_memo :: "(pyobj \<Rightarrow> Aligner \<Rightarrow> py_error option \<times> Aligner) \<Rightarrow> bool" where
  "keeps_memo setter =
     (\<forall>value self self'. setter value self = (None, self') \<longrightarrow>
        algorithm self' = algorithm self \<and> selection_rule self' = selection_rule self)"

section \<open>TraceStore and PathGenerator\<close>

text \<open>
  The direction bits \<open>HORIZONTAL\<close>, \<open>VERTICAL\<close> and \<open>DIAGONAL\<close> are defined in the absent
  header. The C file fixes them up to the order of the three: they are single bits
  (they are tested with \<open>&\<close> and combined with \<open>|\<close>), they sum to 7 and are at most 4 (both
  stated in the FOGSAA code), so they are 1, 2 and 4; the assignment below is the one of
  the Biopython sources. No theorem of this development depends on which of the three
  bits is which. The other constants are defined at the top of the C file.
\<close>

type_synonym trace_bits = "5 word"

type_synonym path_bits = "3 word"

definition HORIZONTAL :: "'a::len word" where "HORIZONTAL = 0x1"
definition VERTICAL :: "'a::len word" where "VERTICAL = 0x2"
definition DIAGONAL :: "'a::len word" where "DIAGONAL = 0x4"
definition STARTPOINT :: trace_bits where "STARTPOINT = 0x8"
definition ENDPOINT :: trace_bits where "ENDPOINT = 0x10"
definition M_MATRIX :: "'a::len word" where "M_MATRIX = 0x1"
definition Ix_MATRIX :: "'a::len word" where "Ix_MATRIX = 0x2"
definition Iy_MATRIX :: "'a::len word" where "Iy_MATRIX = 0x4"
definition DONE :: path_bits where "DONE = 0x3"
definition NONE :: path_bits where "NONE = 0x7"

definition OVERFLOW_ERROR :: int where "OVERFLOW_ERROR = - 1"
definition MEMORY_ERROR :: int where "MEMORY_ERROR = - 2"
definition OTHER_ERROR :: int where "OTHER_ERROR = - 3"

text \<open>
  \<open>Py_ssize_t\<close> on an LP64 platform: 64 bits, two's complement. Values are integers,
  and every addition and subtraction of the counting code goes through \<open>ssize\<close>, which
  wraps the mathematical result around as the machine would.
\<close>

definition PY_SSIZE_T_MAX :: int where "PY_SSIZE_T_MAX = 2 ^ 63 - 1"

definition ssize :: "int \<Rightarrow> int" where
  "ssize x = (x + 2 ^ 63) mod 2 ^ 64 - 2 ^ 63"

text \<open>
  The macro \<open>SAFE_ADD(t, s)\<close> updates \<open>s\<close>; the function returns the new \<open>s\<close>.
\<close>

definition SAFE_ADD :: "int \<Rightarrow> int \<Rightarrow> int" where
  "SAFE_ADD t s =
     (if s \<noteq> OVERFLOW_ERROR then
        (let term = t in
         if term > ssize (PY_SSIZE_T_MAX - s) then OVERFLOW_ERROR else ssize (s + term))
      else s)"

record Trace =
  trace :: trace_bits
  path :: path_bits

record TraceGapsGotoh =
  gap_Ix :: "4 word"
  gap_Iy :: "4 word"

text \<open>
  The gap lists of Waterman-Smith-Beyer: each pointer is null or points to a list of
  gap lengths ended by 0; the list is kept without its terminator.
\<close>

record TraceGapsWatermanSmithBeyer =
  MIx :: "nat list option"
  IyIx :: "nat list option"
  MIy :: "nat list option"
  IxIy :: "nat list option"

datatype Gaps =
  NoGaps
| GotohGaps "TraceGapsGotoh list list"
| WSBGaps "TraceGapsWatermanSmithBeyer list list"

text \<open>
  The fields of the struct \<open>PathGenerator\<close> carry the prefix \<open>pg_\<close>, and those of
  \<open>TraceGapsGotoh\<close> the prefix \<open>gap_\<close>: the C code uses the bare names for local variables
  everywhere.
\<close>

record PathGenerator =
  pg_M :: "Trace list list"
  pg_gaps :: Gaps
  pg_nA :: nat
  pg_nB :: nat
  pg_iA :: nat
  pg_iB :: nat
  pg_mode :: Mode
  pg_algorithm :: Algorithm
  pg_length :: int
  pg_strand :: char

section \<open>PathCounter\<close>

text \<open>
  \<open>PathGenerator_needlemanwunsch_length\<close>. The array \<open>counts\<close> is a list of \<open>nB + 1\<close>
  entries; the loops over \<open>j\<close> and \<open>i\<close> are folds over the index ranges, carrying the
  variables the C loop body updates. Allocation failure (the \<open>MEMORY_ERROR\<close> exit) is not
  modelled.
\<close>

fun nw_length_first_cell :: "Trace list list \<Rightarrow> nat \<Rightarrow> int list \<times> int \<Rightarrow> int list \<times> int" where
  "nw_length_first_cell M j (counts, count) =
     (let tr = trace (M ! 0 ! j);
          count = 0;
          count = (if tr AND HORIZONTAL \<noteq> 0 then SAFE_ADD (counts ! (j - 1)) count else count)
      in (counts[j := count], count))"

fun nw_length_cell ::
    "Trace list list \<Rightarrow> nat \<Rightarrow> nat \<Rightarrow> int \<times> int list \<times> int \<Rightarrow> int \<times> int list \<times> int" where
  "nw_length_cell M i j (temp, counts, count) =
     (let tr = trace (M ! i ! j);
          count = 0;
          count = (if tr AND HORIZONTAL \<noteq> 0 then SAFE_ADD (counts ! (j - 1)) count else count);
          count = (if tr AND VERTICAL \<noteq> 0 then SAFE_ADD (counts ! j) count else count);
          count = (if tr AND DIAGONAL \<noteq> 0 then SAFE_ADD temp count else count);
          temp = counts ! j
      in (temp, counts[j := count], count))"

fun nw_length_row ::
    "Trace list list \<Rightarrow> nat \<Rightarrow> nat \<Rightarrow> int list \<times> int \<Rightarrow> int list \<times> int" where
  "nw_length_row M nB i (counts, count) =
     (let tr = trace (M ! i ! 0);
          count = 0;
          count = (if tr AND VERTICAL \<noteq> 0 then SAFE_ADD (counts ! 0) count else count);
          temp = counts ! 0;
          counts = counts[0 := count];
          (temp, counts, count) = fold (nw_length_cell M i) [1..<Suc nB] (temp, counts, count)
      in (counts, count))"

definition PathGenerator_needlemanwunsch_length :: "PathGenerator \<Rightarrow> int" where
  "PathGenerator_needlemanwunsch_length self =
     snd (fold (nw_length_row (pg_M self) (pg_nB self)) [1..<Suc (pg_nA self)]
            (fold (nw_length_first_cell (pg_M self)) [1..<Suc (pg_nB self)]
               ((replicate (Suc (pg_nB self)) 0)[0 := 1], MEMORY_ERROR)))"

text \<open>\<open>PathGenerator_smithwaterman_length\<close>: the state also carries \<open>total\<close> (here \<open>tot\<close>).\<close>

fun sw_length_cell ::
    "Trace list list \<Rightarrow> nat \<Rightarrow> nat \<Rightarrow> int \<times> int list \<times> int \<times> int
     \<Rightarrow> int \<times> int list \<times> int \<times> int" where
  "sw_length_cell M i j (temp, counts, count, tot) =
     (let tr = trace (M ! i ! j);
          count = 0;
          count = (if tr AND DIAGONAL \<noteq> 0 then SAFE_ADD temp count else count);
          tot = (if trace (M ! i ! j) AND ENDPOINT \<noteq> 0 then SAFE_ADD count tot else tot);
          count = (if tr AND HORIZONTAL \<noteq> 0 then SAFE_ADD (counts ! (j - 1)) count else count);
          count = (if tr AND VERTICAL \<noteq> 0 then SAFE_ADD (counts ! j) count else count);
          temp = counts ! j;
          count = (if count = 0 \<and> tr AND STARTPOINT \<noteq> 0 then 1 else count)
      in (temp, counts[j := count], count, tot))"

fun sw_length_row ::
    "Trace list list \<Rightarrow> nat \<Rightarrow> nat \<Rightarrow> int list \<times> int \<times> int \<Rightarrow> int list \<times> int \<times> int" where
  "sw_length_row M nB i (counts, count, tot) =
     (let temp = counts ! 0;
          counts = counts[0 := 1];
          (temp, counts, count, tot) =
             fold (sw_length_cell M i) [1..<Suc nB] (temp, counts, count, tot)
      in (counts, count, tot))"

definition PathGenerator_smithwaterman_length :: "PathGenerator \<Rightarrow> int" where
  "PathGenerator_smithwaterman_length self =
     (let (counts, count, tot) =
        fold (sw_length_row (pg_M self) (pg_nB self)) [1..<Suc (pg_nA self)]
          (replicate (Suc (pg_nB self)) 1, MEMORY_ERROR, 0)
      in tot)"

text \<open>
  \<open>PathGenerator_gotoh_global_length\<close> and \<open>PathGenerator_gotoh_local_length\<close>: three
  rolling arrays. \<open>gotoh_gaps\<close> reads the Gotoh member of the union \<open>gaps\<close>.
\<close>

definition gotoh_gaps :: "PathGenerator \<Rightarrow> TraceGapsGotoh list list" where
  "gotoh_gaps self = (case pg_gaps self of GotohGaps g \<Rightarrow> g | _ \<Rightarrow> [])"

definition add3 :: "'a::len word \<Rightarrow> int \<Rightarrow> int \<Rightarrow> int \<Rightarrow> int \<Rightarrow> int" where
  "add3 tr m x y count =
     (let count = (if tr AND M_MATRIX \<noteq> 0 then SAFE_ADD m count else count);
          count = (if tr AND Ix_MATRIX \<noteq> 0 then SAFE_ADD x count else count);
          count = (if tr AND Iy_MATRIX \<noteq> 0 then SAFE_ADD y count else count)
      in count)"

record gotoh_counts =
  c_M_temp :: int
  c_Ix_temp :: int
  c_Iy_temp :: int
  c_M_counts :: "int list"
  c_Ix_counts :: "int list"
  c_Iy_counts :: "int list"
  c_count :: int
  c_total :: int

definition gotoh_global_length_cell ::
    "Trace list list \<Rightarrow> TraceGapsGotoh list list \<Rightarrow> nat \<Rightarrow> nat \<Rightarrow> gotoh_counts \<Rightarrow> gotoh_counts"
  where
  "gotoh_global_length_cell M g i j s =
     (let c = add3 (trace (M ! i ! j)) (c_M_temp s) (c_Ix_temp s) (c_Iy_temp s) 0;
          s = s\<lparr>c_M_temp := c_M_counts s ! j, c_M_counts := (c_M_counts s)[j := c]\<rparr>;
          c = add3 (gap_Ix (g ! i ! j)) (c_M_temp s) (c_Ix_counts s ! j) (c_Iy_counts s ! j) 0;
          s = s\<lparr>c_Ix_temp := c_Ix_counts s ! j, c_Ix_counts := (c_Ix_counts s)[j := c]\<rparr>;
          c = add3 (gap_Iy (g ! i ! j)) (c_M_counts s ! (j - 1)) (c_Ix_counts s ! (j - 1))
                (c_Iy_counts s ! (j - 1)) 0
      in s\<lparr>c_Iy_temp := c_Iy_counts s ! j, c_Iy_counts := (c_Iy_counts s)[j := c], c_count := c\<rparr>)"

definition gotoh_global_length_row ::
    "Trace list list \<Rightarrow> TraceGapsGotoh list list \<Rightarrow> nat \<Rightarrow> nat \<Rightarrow> gotoh_counts \<Rightarrow> gotoh_counts"
  where
  "gotoh_global_length_row M g nB i s =
     fold (gotoh_global_length_cell M g i) [1..<Suc nB]
       (s\<lparr>c_M_temp := c_M_counts s ! 0, c_M_counts := (c_M_counts s)[0 := 0],
          c_Ix_temp := c_Ix_counts s ! 0, c_Ix_counts := (c_Ix_counts s)[0 := 1],
          c_Iy_temp := c_Iy_counts s ! 0, c_Iy_counts := (c_Iy_counts s)[0 := 0]\<rparr>)"

definition PathGenerator_gotoh_global_length :: "PathGenerator \<Rightarrow> int" where
  "PathGenerator_gotoh_global_length self =
     (let n = pg_nB self; g = gotoh_gaps self;
          s = fold (gotoh_global_length_row (pg_M self) g n) [1..<Suc (pg_nA self)]
                \<lparr>c_M_temp = 0, c_Ix_temp = 0, c_Iy_temp = 0,
                 c_M_counts = (replicate (Suc n) 0)[0 := 1],
                 c_Ix_counts = replicate (Suc n) 0,
                 c_Iy_counts = (replicate (Suc n) 1)[0 := 0],
                 c_count = MEMORY_ERROR, c_total = 0\<rparr>;
          count = 0;
          count = (if trace (pg_M self ! pg_nA self ! n) \<noteq> 0
                   then SAFE_ADD (c_M_counts s ! n) count else count);
          count = (if gap_Ix (g ! pg_nA self ! n) \<noteq> 0 then SAFE_ADD (c_Ix_counts s ! n) count else count);
          count = (if gap_Iy (g ! pg_nA self ! n) \<noteq> 0 then SAFE_ADD (c_Iy_counts s ! n) count else count)
      in count)"

definition gotoh_local_length_cell ::
    "Trace list list \<Rightarrow> TraceGapsGotoh list list \<Rightarrow> nat \<Rightarrow> nat \<Rightarrow> gotoh_counts \<Rightarrow> gotoh_counts"
  where
  "gotoh_local_length_cell M g i j s =
     (let tr = trace (M ! i ! j);
          c = add3 tr (c_M_temp s) (c_Ix_temp s) (c_Iy_temp s) 0;
          c = (if c = 0 \<and> tr AND STARTPOINT \<noteq> 0 then 1 else c);
          s = s\<lparr>c_M_temp := c_M_counts s ! j, c_M_counts := (c_M_counts s)[j := c]\<rparr>;
          s = (if trace (M ! i ! j) AND ENDPOINT \<noteq> 0
               then s\<lparr>c_total := SAFE_ADD c (c_total s)\<rparr> else s);
          c = add3 (gap_Ix (g ! i ! j)) (c_M_temp s) (c_Ix_counts s ! j) (c_Iy_counts s ! j) 0;
          s = s\<lparr>c_Ix_temp := c_Ix_counts s ! j, c_Ix_counts := (c_Ix_counts s)[j := c]\<rparr>;
          c = add3 (gap_Iy (g ! i ! j)) (c_M_counts s ! (j - 1)) (c_Ix_counts s ! (j - 1))
                (c_Iy_counts s ! (j - 1)) 0
      in s\<lparr>c_Iy_temp := c_Iy_counts s ! j, c_Iy_counts := (c_Iy_counts s)[j := c], c_count := c\<rparr>)"

definition gotoh_local_length_row ::
    "Trace list list \<Rightarrow> TraceGapsGotoh list list \<Rightarrow> nat \<Rightarrow> nat \<Rightarrow> gotoh_counts \<Rightarrow> gotoh_counts"
  where
  "gotoh_local_length_row M g nB i s =
     fold (gotoh_local_length_cell M g i) [1..<Suc nB]
       (s\<lparr>c_M_temp := c_M_counts s ! 0, c_M_counts := (c_M_counts s)[0 := 1],
          c_Ix_temp := c_Ix_counts s ! 0, c_Ix_counts := (c_Ix_counts s)[0 := 0],
          c_Iy_temp := c_Iy_counts s ! 0, c_Iy_counts := (c_Iy_counts s)[0 := 0]\<rparr>)"

definition PathGenerator_gotoh_local_length :: "PathGenerator \<Rightarrow> int" where
  "PathGenerator_gotoh_local_length self =
     (let n = pg_nB self;
          s = fold (gotoh_local_length_row (pg_M self) (gotoh_gaps self) n) [1..<Suc (pg_nA self)]
                \<lparr>c_M_temp = 0, c_Ix_temp = 0, c_Iy_temp = 0,
                 c_M_counts = replicate (Suc n) 1,
                 c_Ix_counts = replicate (Suc n) 0,
                 c_Iy_counts = replicate (Suc n) 0,
                 c_count = MEMORY_ERROR, c_total = 0\<rparr>
      in c_total s)"

text \<open>
  The Waterman-Smith-Beyer counters keep full grids. A read \<open>M_count[i-1][j-1]\<close> or
  \<open>M_count[i-gap][j]\<close> outside the grid is undefined behaviour in C; it does not happen
  on a store made by the forward pass (row 0 and column 0 carry no matrix bits and every
  gap length is at most the index). \<open>grid_at\<close> returns 0 there.
\<close>

definition wsb_gaps :: "PathGenerator \<Rightarrow> TraceGapsWatermanSmithBeyer list list" where
  "wsb_gaps self = (case pg_gaps self of WSBGaps g \<Rightarrow> g | _ \<Rightarrow> [])"

definition grid_at :: "int list list \<Rightarrow> int \<Rightarrow> int \<Rightarrow> int" where
  "grid_at c i j =
     (if 0 \<le> i \<and> i < int (length c) \<and> 0 \<le> j \<and> j < int (length (c ! nat i))
      then c ! nat i ! nat j else 0)"

definition grid_set :: "int list list \<Rightarrow> nat \<Rightarrow> nat \<Rightarrow> int \<Rightarrow> int list list" where
  "grid_set c i j v = c[i := (c ! i)[j := v]]"

definition add_gaps ::
    "nat list option \<Rightarrow> (nat \<Rightarrow> int) \<Rightarrow> int \<Rightarrow> int" where
  "add_gaps p cell count =
     (case p of None \<Rightarrow> count | Some gs \<Rightarrow> fold (\<lambda>gap count. SAFE_ADD (cell gap) count) gs count)"

record wsb_counts =
  M_count :: "int list list"
  Ix_count :: "int list list"
  Iy_count :: "int list list"
  wsb_total :: int

definition wsb_length_cell ::
    "bool \<Rightarrow> Trace list list \<Rightarrow> TraceGapsWatermanSmithBeyer list list \<Rightarrow> nat \<Rightarrow> nat
     \<Rightarrow> wsb_counts \<Rightarrow> wsb_counts" where
  "wsb_length_cell local M g i j s =
     (let tr = trace (M ! i ! j);
          c = add3 tr (grid_at (M_count s) (int i - 1) (int j - 1))
                (grid_at (Ix_count s) (int i - 1) (int j - 1))
                (grid_at (Iy_count s) (int i - 1) (int j - 1)) 0;
          c = (if local then (if c = 0 \<and> tr AND STARTPOINT \<noteq> 0 then 1 else c)
               else (if c = 0 then 1 else c));
          s = s\<lparr>M_count := grid_set (M_count s) i j c\<rparr>;
          s = (if local \<and> trace (M ! i ! j) AND ENDPOINT \<noteq> 0
               then s\<lparr>wsb_total := SAFE_ADD c (wsb_total s)\<rparr> else s);
          c = add_gaps (MIx (g ! i ! j)) (\<lambda>gap. grid_at (M_count s) (int i - int gap) (int j)) 0;
          c = add_gaps (IyIx (g ! i ! j)) (\<lambda>gap. grid_at (Iy_count s) (int i - int gap) (int j)) c;
          s = s\<lparr>Ix_count := grid_set (Ix_count s) i j c\<rparr>;
          c = add_gaps (MIy (g ! i ! j)) (\<lambda>gap. grid_at (M_count s) (int i) (int j - int gap)) 0;
          c = add_gaps (IxIy (g ! i ! j)) (\<lambda>gap. grid_at (Ix_count s) (int i) (int j - int gap)) c
      in s\<lparr>Iy_count := grid_set (Iy_count s) i j c\<rparr>)"

definition wsb_length_grid :: "bool \<Rightarrow> PathGenerator \<Rightarrow> wsb_counts" where
  "wsb_length_grid local self =
     (let zero = replicate (Suc (pg_nA self)) (replicate (Suc (pg_nB self)) 0)
      in fold (\<lambda>i s. fold (wsb_length_cell local (pg_M self) (wsb_gaps self) i) [0..<Suc (pg_nB self)] s)
           [0..<Suc (pg_nA self)]
           \<lparr>M_count = zero, Ix_count = zero, Iy_count = zero, wsb_total = 0\<rparr>)"

definition first_gap :: "nat list option \<Rightarrow> nat" where
  "first_gap p = (case p of Some (gap # gs) \<Rightarrow> gap | _ \<Rightarrow> 0)"

definition PathGenerator_waterman_smith_beyer_global_length :: "PathGenerator \<Rightarrow> int" where
  "PathGenerator_waterman_smith_beyer_global_length self =
     (let s = wsb_length_grid False self;
          a = pg_nA self; b = pg_nB self; g = wsb_gaps self ! a ! b;
          count = 0;
          count = (if trace (pg_M self ! a ! b) \<noteq> 0
                   then SAFE_ADD (M_count s ! a ! b) count else count);
          count = (if first_gap (MIx g) \<noteq> 0 \<or> first_gap (IyIx g) \<noteq> 0
                   then SAFE_ADD (Ix_count s ! a ! b) count else count);
          count = (if first_gap (MIy g) \<noteq> 0 \<or> first_gap (IxIy g) \<noteq> 0
                   then SAFE_ADD (Iy_count s ! a ! b) count else count)
      in count)"

definition PathGenerator_waterman_smith_beyer_local_length :: "PathGenerator \<Rightarrow> int" where
  "PathGenerator_waterman_smith_beyer_local_length self =
     wsb_total (wsb_length_grid True self)"

definition PathGenerator_fogsaa_length :: "PathGenerator \<Rightarrow> int" where
  "PathGenerator_fogsaa_length self = 1"

text \<open>
  \<open>PathGenerator_length\<close>, the \<open>sq_length\<close> slot: the cached length is used when it is not
  0; a negative result comes with a Python exception. The function returns the value,
  the exception if one is set, and the object with the length stored.
\<close>

definition compute_length :: "PathGenerator \<Rightarrow> py_error + int" where
  "compute_length self =
     (case pg_algorithm self of
        NeedlemanWunschSmithWaterman \<Rightarrow>
          (case pg_mode self of
             Global \<Rightarrow> Inr (PathGenerator_needlemanwunsch_length self)
           | Local \<Rightarrow> Inr (PathGenerator_smithwaterman_length self)
           | _ \<Rightarrow> Inl (RuntimeError ''mode has unexpected value''))
      | Gotoh \<Rightarrow>
          (case pg_mode self of
             Global \<Rightarrow> Inr (PathGenerator_gotoh_global_length self)
           | Local \<Rightarrow> Inr (PathGenerator_gotoh_local_length self)
           | _ \<Rightarrow> Inl (RuntimeError ''mode has unexpected value''))
      | WatermanSmithBeyer \<Rightarrow>
          (case pg_mode self of
             Global \<Rightarrow> Inr (PathGenerator_waterman_smith_beyer_global_length self)
           | Local \<Rightarrow> Inr (PathGenerator_waterman_smith_beyer_local_length self)
           | _ \<Rightarrow> Inl (RuntimeError ''mode has unexpected value''))
      | FOGSAA \<Rightarrow>
          (if pg_mode self \<noteq> FOGSAA_Mode then Inl (RuntimeError ''mode has unexpected value'')
           else Inr (PathGenerator_fogsaa_length self))
      | Unknown \<Rightarrow> Inl (RuntimeError ''algorithm has unexpected value''))"

definition length_exception :: "int \<Rightarrow> py_error option" where
  "length_exception len =
     (if len = OVERFLOW_ERROR
        then Some (OverflowError ''number of optimal alignments is larger than %zd'')
      else if len = MEMORY_ERROR then Some MemoryError
      else None)"

definition PathGenerator_length :: "PathGenerator \<Rightarrow> (int \<times> py_error option) \<times> PathGenerator" where
  "PathGenerator_length self =
     (if pg_length self = 0 then
        (case compute_length self of
           Inl e \<Rightarrow> ((OTHER_ERROR, Some e), self)
         | Inr len \<Rightarrow> ((len, length_exception len), self\<lparr>pg_length := len\<rparr>))
      else ((pg_length self, length_exception (pg_length self)), self))"

section \<open>ForwardPass: scoring sources\<close>

text \<open>
  \<open>COMPARE_SCORE\<close> and \<open>MATRIX_SCORE\<close>, as functions of the two codes \<open>kA\<close> and \<open>kB\<close>. The
  locals \<open>match\<close>, \<open>mismatch\<close> and \<open>wildcard\<close> of the callers are copies of the fields of
  \<open>self\<close>, which is passed instead. The matrix is read at \<open>kA*n+kB\<close>; the index check of \<open>Aligner_score\<close> and \<open>Aligner_align\<close>
  keeps the index inside the buffer.
\<close>

definition COMPARE_SCORE :: "Aligner \<Rightarrow> int \<Rightarrow> int \<Rightarrow> double" where
  "COMPARE_SCORE self kA kB =
     (if kA = wildcard self \<or> kB = wildcard self then 0
      else if kA = kB then match self else mismatch self)"

definition MATRIX_SCORE :: "double list \<Rightarrow> int \<Rightarrow> int \<Rightarrow> int \<Rightarrow> double" where
  "MATRIX_SCORE matrix n kA kB = matrix ! nat (kA * n + kB)"

section \<open>ForwardPass: strand and edge gap parameters\<close>

text \<open>
  The \<open>switch (strand)\<close> that opens the Needleman-Wunsch, Gotoh (global) and FOGSAA bodies:
  it picks the left and right edge gap scores, or fails when the strand is neither
  \<open>+\<close> nor \<open>-\<close>.
\<close>

record edge_gaps =
  left_gap_open_A :: double
  left_gap_open_B :: double
  left_gap_extend_A :: double
  left_gap_extend_B :: double
  right_gap_open_A :: double
  right_gap_open_B :: double
  right_gap_extend_A :: double
  right_gap_extend_B :: double

definition strand_message :: string where
  "strand_message = ''strand was neither '+' nor '-'' @ [CHR 0x27]"

definition strand_switch :: "Aligner \<Rightarrow> char \<Rightarrow> py_error + edge_gaps" where
  "strand_switch self strand =
     (if strand = CHR ''+'' then Inr \<lparr>
        left_gap_open_A = open_left_insertion_score self,
        left_gap_open_B = open_left_deletion_score self,
        left_gap_extend_A = extend_left_insertion_score self,
        left_gap_extend_B = extend_left_deletion_score self,
        right_gap_open_A = open_right_insertion_score self,
        right_gap_open_B = open_right_deletion_score self,
        right_gap_extend_A = extend_right_insertion_score self,
        right_gap_extend_B = extend_right_deletion_score self\<rparr>
      else if strand = CHR ''-'' then Inr \<lparr>
        left_gap_open_A = open_right_insertion_score self,
        left_gap_open_B = open_right_deletion_score self,
        left_gap_extend_A = extend_right_insertion_score self,
        left_gap_extend_B = extend_right_deletion_score self,
        right_gap_open_A = open_left_insertion_score self,
        right_gap_open_B = open_left_deletion_score self,
        right_gap_extend_A = extend_left_insertion_score self,
        right_gap_extend_B = extend_left_deletion_score self\<rparr>
      else Inl (RuntimeError strand_message))"

section \<open>ForwardPass: Needleman-Wunsch, score only\<close>

definition SELECT_SCORE_GLOBAL :: "double \<Rightarrow> double \<Rightarrow> double \<Rightarrow> double" where
  "SELECT_SCORE_GLOBAL score1 score2 score3 =
     (let score = score1;
          temp = score2;
          score = (if temp > score then temp else score);
          temp = score3;
          score = (if temp > score then temp else score)
      in score)"

text \<open>
  The loop state of \<open>NEEDLEMANWUNSCH_SCORE\<close>: the variables \<open>temp\<close>, \<open>row\<close> and \<open>score\<close>.
  \<open>nw_score_cell\<close> is the body of the loops over \<open>j\<close>, with the gap scores of the cell.
\<close>

fun nw_score_cell ::
    "(int \<Rightarrow> int \<Rightarrow> double) \<Rightarrow> int list \<Rightarrow> int \<Rightarrow> double \<Rightarrow> double \<Rightarrow> nat
     \<Rightarrow> double \<times> double list \<times> double \<Rightarrow> double \<times> double list \<times> double" where
  "nw_score_cell align_score sB kA vgap hgap j (temp, row, score) =
    (let kB = sB ! (j - 1);
         score = SELECT_SCORE_GLOBAL (temp + align_score kA kB) (row ! j + vgap)
                   (row ! (j - 1) + hgap);
         temp = row ! j;
         row = row[j := score]
     in (temp, row, score))"

fun nw_score_row ::
    "(int \<Rightarrow> int \<Rightarrow> double) \<Rightarrow> int list \<Rightarrow> int list \<Rightarrow> nat \<Rightarrow> double \<Rightarrow> double \<Rightarrow> edge_gaps
     \<Rightarrow> nat \<Rightarrow> double \<times> double list \<times> double \<Rightarrow> double \<times> double list \<times> double"
  where
  "nw_score_row align_score sA sB nB gap_extend_A gap_extend_B g i (temp, row, score) =
    (let kA = sA ! (i - 1);
         temp = row ! 0;
         row = row[0 := real i * left_gap_extend_B g];
         (temp, row, score) =
            fold (nw_score_cell align_score sB kA gap_extend_B gap_extend_A) [1..<nB]
              (temp, row, score)
     in nw_score_cell align_score sB kA (right_gap_extend_B g) gap_extend_A nB
          (temp, row, score))"

definition NEEDLEMANWUNSCH_SCORE ::
    "(int \<Rightarrow> int \<Rightarrow> double) \<Rightarrow> Aligner \<Rightarrow> int list \<Rightarrow> nat \<Rightarrow> int list \<Rightarrow> nat \<Rightarrow> char
     \<Rightarrow> py_error + double" where
  "NEEDLEMANWUNSCH_SCORE align_score self sA nA sB nB strand =
     (let gap_extend_A = extend_internal_insertion_score self;
          gap_extend_B = extend_internal_deletion_score self
      in case strand_switch self strand of
        Inl e \<Rightarrow> Inl e
      | Inr g \<Rightarrow>
         (let row = map (\<lambda>j. real j * left_gap_extend_A g) [0..<Suc nB];
              row = row[0 := 0];
              (temp, row, score) =
                 fold (nw_score_row align_score sA sB nB gap_extend_A gap_extend_B g) [1..<nA]
                   (0, row, 0);
              kA = sA ! (nA - 1);
              temp = row ! 0;
              row = row[0 := real nA * right_gap_extend_B g];
              (temp, row, score) =
                 fold (nw_score_cell align_score sB kA gap_extend_B (right_gap_extend_A g))
                   [1..<nB] (temp, row, score);
              (temp, row, score) =
                 nw_score_cell align_score sB kA (right_gap_extend_B g) (right_gap_extend_A g)
                   nB (temp, row, score)
          in Inr score))"

definition Aligner_needlemanwunsch_score_compare ::
    "Aligner \<Rightarrow> int list \<Rightarrow> nat \<Rightarrow> int list \<Rightarrow> nat \<Rightarrow> char \<Rightarrow> py_error + double" where
  "Aligner_needlemanwunsch_score_compare self sA nA sB nB strand =
     NEEDLEMANWUNSCH_SCORE (COMPARE_SCORE self)
       self sA nA sB nB strand"

definition Aligner_needlemanwunsch_score_matrix ::
    "Aligner \<Rightarrow> int list \<Rightarrow> nat \<Rightarrow> int list \<Rightarrow> nat \<Rightarrow> char \<Rightarrow> py_error + double" where
  "Aligner_needlemanwunsch_score_matrix self sA nA sB nB strand =
     (let view = the (substitution_matrix self)
      in NEEDLEMANWUNSCH_SCORE (MATRIX_SCORE (m_buf view) (m_shape view ! 0))
           self sA nA sB nB strand)"

section \<open>ForwardPass: Needleman-Wunsch with traceback\<close>

text \<open>
  \<open>PathGenerator_create_NWSW\<close>. The trace grid is allocated without being cleared; memory
  that the C code has not written yet is modelled as 0.
\<close>

definition set_trace :: "Trace list list \<Rightarrow> nat \<Rightarrow> nat \<Rightarrow> trace_bits \<Rightarrow> Trace list list" where
  "set_trace M i j tr = M[i := (M ! i)[j := (M ! i ! j)\<lparr>trace := tr\<rparr>]]"

definition set_path :: "Trace list list \<Rightarrow> nat \<Rightarrow> nat \<Rightarrow> path_bits \<Rightarrow> Trace list list" where
  "set_path M i j p = M[i := (M ! i)[j := (M ! i ! j)\<lparr>path := p\<rparr>]]"

definition PathGenerator_create_NWSW ::
    "nat \<Rightarrow> nat \<Rightarrow> Mode \<Rightarrow> char \<Rightarrow> py_error + PathGenerator" where
  "PathGenerator_create_NWSW nA nB mode' strand =
     (case mode' of
        FOGSAA_Mode \<Rightarrow> Inl (RuntimeError ''mode has unexpected value'')
      | _ \<Rightarrow>
         (let M = replicate (Suc nA) (replicate (Suc nB) \<lparr>trace = 0, path = 0\<rparr>);
              tr = (if mode' = Global then VERTICAL else STARTPOINT);
              M = fold (\<lambda>i M. set_trace M i 0 tr) [0..<Suc nA] M;
              M = (if mode' = Global then set_trace M 0 0 0 else M);
              tr = (if mode' = Global then HORIZONTAL else tr);
              M = fold (\<lambda>i M. set_trace M 0 i tr) [1..<Suc nB] M;
              M = set_path M 0 0 0
          in Inr \<lparr>pg_M = M, pg_gaps = NoGaps, pg_nA = nA, pg_nB = nB, pg_iA = 0, pg_iB = 0,
                  pg_mode = mode', pg_algorithm = NeedlemanWunschSmithWaterman, pg_length = 0,
                  pg_strand = strand\<rparr>))"

text \<open>
  The macro \<open>SELECT_TRACE_NEEDLEMAN_WUNSCH(hgap, vgap, align_score)\<close> at the cell
  \<open>(i, j)\<close>: it reads \<open>temp\<close>, \<open>row\<close> and \<open>epsilon\<close> (here \<open>eps\<close>) and writes \<open>score\<close>, \<open>temp\<close>, \<open>row[j]\<close> and
  \<open>M[i][j].trace\<close>.
\<close>

fun SELECT_TRACE_NEEDLEMAN_WUNSCH ::
    "double \<Rightarrow> double \<Rightarrow> double \<Rightarrow> double \<Rightarrow> nat \<Rightarrow> nat
     \<Rightarrow> double \<times> double list \<times> Trace list list
     \<Rightarrow> double \<times> double \<times> double list \<times> Trace list list" where
  "SELECT_TRACE_NEEDLEMAN_WUNSCH eps hgap vgap align_score i j (temp, row, M) =
    (let score = temp + align_score;
         tr = DIAGONAL;
         temp = row ! (j - 1) + hgap;
         (score, tr) =
            (if temp > score + eps then (temp, HORIZONTAL)
             else if temp > score - eps then (score, tr OR HORIZONTAL)
             else (score, tr));
         temp = row ! j + vgap;
         (score, tr) =
            (if temp > score + eps then (temp, VERTICAL)
             else if temp > score - eps then (score, tr OR VERTICAL)
             else (score, tr));
         temp = row ! j;
         row = row[j := score];
         M = set_trace M i j tr
     in (score, temp, row, M))"

fun nw_align_cell ::
    "double \<Rightarrow> (int \<Rightarrow> int \<Rightarrow> double) \<Rightarrow> int list \<Rightarrow> int \<Rightarrow> double \<Rightarrow> double \<Rightarrow> nat \<Rightarrow> nat
     \<Rightarrow> double \<times> double \<times> double list \<times> Trace list list
     \<Rightarrow> double \<times> double \<times> double list \<times> Trace list list" where
  "nw_align_cell eps align_score sB kA hgap vgap i j (score, temp, row, M) =
    (let kB = sB ! (j - 1)
     in SELECT_TRACE_NEEDLEMAN_WUNSCH eps hgap vgap (align_score kA kB) i j (temp, row, M))"

fun nw_align_row ::
    "double \<Rightarrow> (int \<Rightarrow> int \<Rightarrow> double) \<Rightarrow> int list \<Rightarrow> int list \<Rightarrow> nat \<Rightarrow> double \<Rightarrow> double
     \<Rightarrow> edge_gaps \<Rightarrow> nat
     \<Rightarrow> double \<times> double \<times> double list \<times> Trace list list
     \<Rightarrow> double \<times> double \<times> double list \<times> Trace list list" where
  "nw_align_row eps align_score sA sB nB gap_extend_A gap_extend_B g i (score, temp, row, M) =
    (let temp = row ! 0;
         row = row[0 := real i * left_gap_extend_B g];
         kA = sA ! (i - 1);
         s = fold (nw_align_cell eps align_score sB kA gap_extend_A gap_extend_B i) [1..<nB]
               (score, temp, row, M)
     in nw_align_cell eps align_score sB kA gap_extend_A (right_gap_extend_B g) i nB s)"

definition NEEDLEMANWUNSCH_ALIGN ::
    "(int \<Rightarrow> int \<Rightarrow> double) \<Rightarrow> Aligner \<Rightarrow> int list \<Rightarrow> nat \<Rightarrow> int list \<Rightarrow> nat \<Rightarrow> char
     \<Rightarrow> py_error + double \<times> PathGenerator" where
  "NEEDLEMANWUNSCH_ALIGN align_score self sA nA sB nB strand =
     (let gap_extend_A = extend_internal_insertion_score self;
          gap_extend_B = extend_internal_deletion_score self;
          eps = epsilon self
      in case strand_switch self strand of
        Inl e \<Rightarrow> Inl e
      | Inr g \<Rightarrow>
         (case PathGenerator_create_NWSW nA nB Global strand of
            Inl e \<Rightarrow> Inl e
          | Inr paths \<Rightarrow>
             (let M = pg_M paths;
                  row = map (\<lambda>j. real j * left_gap_extend_A g) [0..<Suc nB];
                  row = row[0 := 0];
                  (score, temp, row, M) =
                     fold (nw_align_row eps align_score sA sB nB gap_extend_A gap_extend_B g)
                       [1..<nA] (0, 0, row, M);
                  temp = row ! 0;
                  row = row[0 := real nA * left_gap_extend_B g];
                  kA = sA ! (nA - 1);
                  s = fold (nw_align_cell eps align_score sB kA (right_gap_extend_A g)
                              gap_extend_B nA) [1..<nB] (score, temp, row, M);
                  (score, temp, row, M) =
                     nw_align_cell eps align_score sB kA (right_gap_extend_A g)
                       (right_gap_extend_B g) nA nB s;
                  M = set_path M nA nB 0
              in Inr (score, paths\<lparr>pg_M := M\<rparr>))))"

definition Aligner_needlemanwunsch_align_compare ::
    "Aligner \<Rightarrow> int list \<Rightarrow> nat \<Rightarrow> int list \<Rightarrow> nat \<Rightarrow> char \<Rightarrow> py_error + double \<times> PathGenerator"
  where
  "Aligner_needlemanwunsch_align_compare self sA nA sB nB strand =
     NEEDLEMANWUNSCH_ALIGN (COMPARE_SCORE self)
       self sA nA sB nB strand"

definition Aligner_needlemanwunsch_align_matrix ::
    "Aligner \<Rightarrow> int list \<Rightarrow> nat \<Rightarrow> int list \<Rightarrow> nat \<Rightarrow> char \<Rightarrow> py_error + double \<times> PathGenerator"
  where
  "Aligner_needlemanwunsch_align_matrix self sA nA sB nB strand =
     (let view = the (substitution_matrix self)
      in NEEDLEMANWUNSCH_ALIGN (MATRIX_SCORE (m_buf view) (m_shape view ! 0))
           self sA nA sB nB strand)"

section \<open>Invariants of the trace grid when every candidate ties\<close>

text \<open>
  Predicates used in the proofs about \<open>NEEDLEMANWUNSCH_ALIGN\<close> and
  \<open>PathGenerator_needlemanwunsch_length\<close>. \<open>grid nA nB M\<close> says that \<open>M\<close> has \<open>nA + 1\<close>
  rows of \<open>nB + 1\<close> cells. \<open>tie_traces nA nB i j M\<close> says that the top row holds
  \<open>HORIZONTAL\<close>, the left column \<open>VERTICAL\<close>, and every inner cell before \<open>(i, j)\<close> in
  row-major order holds all three directions.
\<close>

definition grid :: "nat \<Rightarrow> nat \<Rightarrow> Trace list list \<Rightarrow> bool" where
  "grid nA nB M \<longleftrightarrow> length M = Suc nA \<and> (\<forall>i \<le> nA. length (M ! i) = Suc nB)"

definition tie_traces :: "nat \<Rightarrow> nat \<Rightarrow> nat \<Rightarrow> nat \<Rightarrow> Trace list list \<Rightarrow> bool" where
  "tie_traces nA nB i j M \<longleftrightarrow>
     grid nA nB M
   \<and> (\<forall>j'. 1 \<le> j' \<and> j' \<le> nB \<longrightarrow> trace (M ! 0 ! j') = 1)
   \<and> (\<forall>i'. 1 \<le> i' \<and> i' \<le> nA \<longrightarrow> trace (M ! i' ! 0) = 2)
   \<and> (\<forall>i' j'. 1 \<le> i' \<and> 1 \<le> j' \<and> j' \<le> nB \<and> (i' < i \<or> i' = i \<and> j' < j)
        \<longrightarrow> trace (M ! i' ! j') = 7)"

text \<open>
  The array \<open>counts\<close> of \<open>PathGenerator_needlemanwunsch_length\<close> after row 36 of a
  \<open>37 \<times> 20\<close> grid in which every inner cell holds all three directions: the last entry
  has overflowed.
\<close>

definition tie_counts_36 :: "int list" where
  "tie_counts_36 =
     [1, 73, 2665, 64897, 1186369, 17372905, 212358985, 2229491905, 20529927745,
      168502295625, 1248543693033, 8438973867969, 52481589415425, 302494131826281,
      1626023734694217, 8195643365216385, 38917020105075585, 174827809500822345,
      745778857519239785, 3030987219469437185, OVERFLOW_ERROR]"

lemma linear_gaps_iff:
  "linear_gaps self \<longleftrightarrow>
     open_internal_insertion_score self = extend_internal_insertion_score self
   \<and> open_internal_deletion_score self = extend_internal_deletion_score self
   \<and> open_left_insertion_score self = extend_left_insertion_score self
   \<and> open_right_insertion_score self = extend_right_insertion_score self
   \<and> open_left_deletion_score self = extend_left_deletion_score self
   \<and> open_right_deletion_score self = extend_right_deletion_score self"
  by (auto simp: linear_gaps_def)

lemma selection_rule_scoring_update:
  "selection_rule (self\<lparr>match := m\<rparr>) = selection_rule self"
  "selection_rule (self\<lparr>mismatch := m\<rparr>) = selection_rule self"
  "selection_rule (self\<lparr>substitution_matrix := b\<rparr>) = selection_rule self"
  "selection_rule (self\<lparr>wildcard := w\<rparr>) = selection_rule self"
  by (simp_all add: selection_rule_def linear_gaps_iff)

lemma scoring_setters_keep:
  "keeps_memo Aligner_set_match_score"
  "keeps_memo Aligner_set_mismatch_score"
  "keeps_memo Aligner_set_substitution_matrix"
  "keeps_memo Aligner_set_wildcard"
  by (auto simp: keeps_memo_def Aligner_set_match_score_def Aligner_set_mismatch_score_def
      Aligner_set_substitution_matrix_def Aligner_set_wildcard_def selection_rule_scoring_update
      split: sum.splits pyobj.splits if_splits)

lemmas numeric_setter_defs =
  Aligner_set_end_deletion_score_def Aligner_set_end_gap_score_def
  Aligner_set_end_insertion_score_def Aligner_set_epsilon_def
  Aligner_set_extend_deletion_score_def Aligner_set_extend_end_deletion_score_def
  Aligner_set_extend_end_gap_score_def Aligner_set_extend_end_insertion_score_def
  Aligner_set_extend_gap_score_def Aligner_set_extend_insertion_score_def
  Aligner_set_extend_internal_deletion_score_def Aligner_set_extend_internal_gap_score_def
  Aligner_set_extend_internal_insertion_score_def Aligner_set_extend_left_deletion_score_def
  Aligner_set_extend_left_gap_score_def Aligner_set_extend_left_insertion_score_def
  Aligner_set_extend_right_deletion_score_def Aligner_set_extend_right_gap_score_def
  Aligner_set_extend_right_insertion_score_def Aligner_set_internal_deletion_score_def
  Aligner_set_internal_gap_score_def Aligner_set_internal_insertion_score_def
  Aligner_set_left_deletion_score_def Aligner_set_left_gap_score_def
  Aligner_set_left_insertion_score_def Aligner_set_open_deletion_score_def
  Aligner_set_open_end_deletion_score_def Aligner_set_open_end_gap_score_def
  Aligner_set_open_end_insertion_score_def Aligner_set_open_gap_score_def
  Aligner_set_open_insertion_score_def Aligner_set_open_internal_deletion_score_def
  Aligner_set_open_internal_gap_score_def Aligner_set_open_internal_insertion_score_def
  Aligner_set_open_left_deletion_score_def Aligner_set_open_left_gap_score_def
  Aligner_set_open_left_insertion_score_def Aligner_set_open_right_deletion_score_def
  Aligner_set_open_right_gap_score_def Aligner_set_open_right_insertion_score_def
  Aligner_set_right_deletion_score_def Aligner_set_right_gap_score_def
  Aligner_set_right_insertion_score_def

lemma numeric_setters_invalidate:
  "invalidates Aligner_set_end_deletion_score"
  "invalidates Aligner_set_end_gap_score"
  "invalidates Aligner_set_end_insertion_score"
  "invalidates Aligner_set_epsilon"
  "invalidates Aligner_set_extend_deletion_score"
  "invalidates Aligner_set_extend_end_deletion_score"
  "invalidates Aligner_set_extend_end_gap_score"
  "invalidates Aligner_set_extend_end_insertion_score"
  "invalidates Aligner_set_extend_gap_score"
  "invalidates Aligner_set_extend_insertion_score"
  "invalidates Aligner_set_extend_internal_deletion_score"
  "invalidates Aligner_set_extend_internal_gap_score"
  "invalidates Aligner_set_extend_internal_insertion_score"
  "invalidates Aligner_set_extend_left_deletion_score"
  "invalidates Aligner_set_extend_left_gap_score"
  "invalidates Aligner_set_extend_left_insertion_score"
  "invalidates Aligner_set_extend_right_deletion_score"
  "invalidates Aligner_set_extend_right_gap_score"
  "invalidates Aligner_set_extend_right_insertion_score"
  "invalidates Aligner_set_internal_deletion_score"
  "invalidates Aligner_set_internal_gap_score"
  "invalidates Aligner_set_internal_insertion_score"
  "invalidates Aligner_set_left_deletion_score"
  "invalidates Aligner_set_left_gap_score"
  "invalidates Aligner_set_left_insertion_score"
  "invalidates Aligner_set_open_deletion_score"
  "invalidates Aligner_set_open_end_deletion_score"
  "invalidates Aligner_set_open_end_gap_score"
  "invalidates Aligner_set_open_end_insertion_score"
  "invalidates Aligner_set_open_gap_score"
  "invalidates Aligner_set_open_insertion_score"
  "invalidates Aligner_set_open_internal_deletion_score"
  "invalidates Aligner_set_open_internal_gap_score"
  "invalidates Aligner_set_open_internal_insertion_score"
  "invalidates Aligner_set_open_left_deletion_score"
  "invalidates Aligner_set_open_left_gap_score"
  "invalidates Aligner_set_open_left_insertion_score"
  "invalidates Aligner_set_open_right_deletion_score"
  "invalidates Aligner_set_open_right_gap_score"
  "invalidates Aligner_set_open_right_insertion_score"
  "invalidates Aligner_set_right_deletion_score"
  "invalidates Aligner_set_right_gap_score"
  "invalidates Aligner_set_right_insertion_score"
  by (auto simp: invalidates_def numeric_setter_defs split: sum.splits)

lemma callable_setters_invalidate:
  "invalidates Aligner_set_mode"
  "invalidates Aligner_set_gap_score"
  "invalidates Aligner_set_insertion_score"
  "invalidates Aligner_set_deletion_score"
  by (auto simp: invalidates_def Aligner_set_mode_def Aligner_set_gap_score_def
      Aligner_set_insertion_score_def Aligner_set_deletion_score_def Let_def
      split: sum.splits pyobj.splits if_splits)

section \<open>Algorithm selection (C2)\<close>

lemma get_algorithm_Unknown:
  "algorithm self = Unknown \<Longrightarrow>
   get_algorithm self = (selection_rule self, self\<lparr>algorithm := selection_rule self\<rparr>)"
  by (simp add: get_algorithm_def selection_rule_def linear_gaps_iff Let_def)

text \<open>
  C2. Whenever the algorithm has to be derived (the memo is \<open>Unknown\<close>), \<open>_get_algorithm\<close>
  returns and stores the first match of the ordered rules of the specification: FOGSAA
  mode, then a gap score function, then all six open scores equal to their extend
  scores, then Gotoh.
\<close>

theorem get_algorithm_first_match:
  "get_algorithm (self\<lparr>algorithm := Unknown\<rparr>)
     = (selection_rule self, self\<lparr>algorithm := selection_rule self\<rparr>)"
  by (simp add: get_algorithm_def selection_rule_def linear_gaps_iff Let_def)

theorem get_algorithm_first_match_witness:
  "fst (get_algorithm (Aligner_init\<lparr>algorithm := Unknown\<rparr>)) = NeedlemanWunschSmithWaterman
   \<and> fst (get_algorithm (Aligner_init\<lparr>open_left_deletion_score := - 2, algorithm := Unknown\<rparr>))
       = Gotoh
   \<and> fst (get_algorithm (Aligner_init\<lparr>mode := FOGSAA_Mode,
         insertion_score_function := Some (PyFunction 0 (\<lambda>i j. Inr 0)), algorithm := Unknown\<rparr>))
       = FOGSAA
   \<and> fst (get_algorithm (Aligner_init\<lparr>mode := Local,
         insertion_score_function := Some (PyFunction 0 (\<lambda>i j. Inr 0)), algorithm := Unknown\<rparr>))
       = WatermanSmithBeyer"
  using get_algorithm_first_match [of Aligner_init]
    get_algorithm_first_match [of "Aligner_init\<lparr>open_left_deletion_score := - 2\<rparr>"]
    get_algorithm_first_match [of "Aligner_init\<lparr>mode := FOGSAA_Mode,
         insertion_score_function := Some (PyFunction 0 (\<lambda>i j. Inr 0))\<rparr>"]
    get_algorithm_first_match [of "Aligner_init\<lparr>mode := Local,
         insertion_score_function := Some (PyFunction 0 (\<lambda>i j. Inr 0))\<rparr>"]
  by (simp add: selection_rule_def linear_gaps_iff Aligner_init_def)

section \<open>Setters and the memoized algorithm (C3)\<close>

lemma get_algorithm_consistent:
  assumes "cache_consistent self"
  shows "fst (get_algorithm self) = selection_rule self"
proof (cases "algorithm self = Unknown")
  case True
  then show ?thesis by (simp add: get_algorithm_Unknown)
next
  case False
  with assms have "algorithm self = selection_rule self"
    by (simp add: cache_consistent_def)
  with False show ?thesis by (simp add: get_algorithm_def)
qed

lemma table_entries:
  "list_all (\<lambda>(name, setter).
      if name \<in> set scoring_attributes then keeps_memo setter else invalidates setter)
     Aligner_getset"
  unfolding Aligner_getset_def scoring_attributes_def
  by (simp add: numeric_setters_invalidate callable_setters_invalidate scoring_setters_keep)

lemma table_entry:
  assumes "(name, setter) \<in> set Aligner_getset"
  shows "if name \<in> set scoring_attributes then keeps_memo setter else invalidates setter"
  using table_entries assms by (auto simp: list_all_iff)

text \<open>
  C3, as the code has it. The setters of \<open>match_score\<close>, \<open>mismatch_score\<close> (and their
  synonyms), \<open>substitution_matrix\<close> and \<open>wildcard\<close> do not write the field \<open>algorithm\<close>:
  the claim fails for them.
\<close>

theorem match_score_setter_keeps_memo:
  "(''match_score'', Aligner_set_match_score) \<in> set Aligner_getset
   \<and> fst (Aligner_set_match_score (PyFloat 2) (snd (get_algorithm Aligner_init))) = None
   \<and> algorithm (snd (Aligner_set_match_score (PyFloat 2) (snd (get_algorithm Aligner_init))))
       = NeedlemanWunschSmithWaterman"
  by (simp add: Aligner_getset_def Aligner_set_match_score_def PyFloat_AsDouble_def
      get_algorithm_def Aligner_init_def)

text \<open>
  C3 amended. For every entry of the setter table and every successful set: a setter of
  a scoring attribute leaves the memo as it was, every other setter (mode, epsilon, all
  gap scores) resets it to \<open>Unknown\<close>; and if the memo was consistent before the set, the
  next algorithm query returns what the selection rule gives for the new parameters.
\<close>

theorem setters_and_memoized_algorithm:
  assumes "(name, setter) \<in> set Aligner_getset"
    and "setter value self = (None, self')"
    and "cache_consistent self"
  shows "(if name \<in> set scoring_attributes then algorithm self' = algorithm self
          else algorithm self' = Unknown)
         \<and> fst (get_algorithm self') = selection_rule self'"
proof (cases "name \<in> set scoring_attributes")
  case True
  with table_entry [OF assms(1)] have "keeps_memo setter" by simp
  with assms(2) have keep: "algorithm self' = algorithm self"
    "selection_rule self' = selection_rule self"
    by (auto simp: keeps_memo_def)
  with assms(3) have "cache_consistent self'" by (simp add: cache_consistent_def)
  with True keep show ?thesis by (simp add: get_algorithm_consistent)
next
  case False
  with table_entry [OF assms(1)] have "invalidates setter" by simp
  with assms(2) have "algorithm self' = Unknown" by (auto simp: invalidates_def)
  with False show ?thesis by (simp add: get_algorithm_Unknown)
qed

theorem setters_and_memoized_algorithm_witness:
  "(''epsilon'', Aligner_set_epsilon) \<in> set Aligner_getset
   \<and> cache_consistent (snd (get_algorithm Aligner_init))
   \<and> algorithm (snd (get_algorithm Aligner_init)) = NeedlemanWunschSmithWaterman
   \<and> Aligner_set_epsilon (PyFloat 2) (snd (get_algorithm Aligner_init))
       = (None, Aligner_init\<lparr>epsilon := 2\<rparr>)
   \<and> algorithm (Aligner_init\<lparr>epsilon := 2\<rparr>) = Unknown
   \<and> fst (get_algorithm (Aligner_init\<lparr>epsilon := 2\<rparr>))
       = selection_rule (Aligner_init\<lparr>epsilon := 2\<rparr>)"
proof -
  have h1: "(''epsilon'', Aligner_set_epsilon) \<in> set Aligner_getset"
    by (simp add: Aligner_getset_def)
  have h2: "Aligner_set_epsilon (PyFloat 2) (snd (get_algorithm Aligner_init))
      = (None, Aligner_init\<lparr>epsilon := 2\<rparr>)"
    by (simp add: Aligner_set_epsilon_def PyFloat_AsDouble_def get_algorithm_def Aligner_init_def)
  have h3: "cache_consistent (snd (get_algorithm Aligner_init))"
    by (simp add: cache_consistent_def get_algorithm_def Aligner_init_def selection_rule_def
        linear_gaps_iff)
  have h4: "algorithm (snd (get_algorithm Aligner_init)) = NeedlemanWunschSmithWaterman"
    by (simp add: get_algorithm_def Aligner_init_def)
  from setters_and_memoized_algorithm [OF h1 h2 h3] h1 h2 h3 h4 show ?thesis
    by (simp add: scoring_attributes_def)
qed

section \<open>The aggregate gap score (C4)\<close>

text \<open>
  C4. With no gap score function installed, the getter \<open>gap_score\<close> returns the common
  value when the twelve gap scalars are all equal and fails with "gap scores are
  different" otherwise; the setter \<open>gap_score\<close> with a number succeeds and assigns it to
  all twelve scalars.
\<close>

theorem gap_score_aggregate:
  assumes "insertion_score_function self = None" and "deletion_score_function self = None"
  shows "Aligner_get_gap_score self =
           (if all_equal (gap_scalars self)
            then Inr (PyFloat (open_internal_insertion_score self))
            else Inl (ValueError ''gap scores are different''))
         \<and> fst (Aligner_set_gap_score (PyFloat x) self) = None
         \<and> gap_scalars (snd (Aligner_set_gap_score (PyFloat x) self)) = replicate 12 x"
  using assms
  by (auto simp: Aligner_get_gap_score_def all_equal_def gap_scalars_def Let_def
      Aligner_set_gap_score_def PyFloat_AsDouble_def numeral_eq_Suc)

theorem gap_score_aggregate_witness:
  "insertion_score_function Aligner_init = None \<and> deletion_score_function Aligner_init = None
   \<and> Aligner_get_gap_score Aligner_init = Inr (PyFloat 0)
   \<and> Aligner_get_gap_score (Aligner_init\<lparr>extend_right_deletion_score := - 1\<rparr>)
       = Inl (ValueError ''gap scores are different'')
   \<and> gap_scalars (snd (Aligner_set_gap_score (PyFloat (- 3)) Aligner_init)) = replicate 12 (- 3)"
  using gap_score_aggregate [of Aligner_init "- 3"]
    gap_score_aggregate [of "Aligner_init\<lparr>extend_right_deletion_score := - 1\<rparr>" 0]
  by (simp add: Aligner_init_def all_equal_def gap_scalars_def)

section \<open>The path count of a grid of ties\<close>

lemma fold_upt_invariant:
  assumes "P a s" and "a \<le> b"
    and "\<And>k s. a \<le> k \<Longrightarrow> k < b \<Longrightarrow> P k s \<Longrightarrow> P (Suc k) (f k s)"
  shows "P b (fold f [a..<b] s)"
  using assms(2,3)
proof (induction b)
  case 0
  then show ?case using assms(1) by simp
next
  case (Suc b)
  show ?case
  proof (cases "a = Suc b")
    case True
    then show ?thesis using assms(1) by simp
  next
    case False
    then have le: "a \<le> b" using Suc.prems(1) by simp
    have "P b (fold f [a..<b] s)"
      using Suc.IH[OF le] Suc.prems(2) by simp
    then show ?thesis using le Suc.prems(2)[of b] by simp
  qed
qed

lemma nth_list_update_total:
  "xs[i := x] ! j = (if i = j \<and> i < length xs then x else xs ! j)"
  by (cases "i < length xs") (auto simp: nth_list_update list_update_beyond)

lemma grid_row: "grid nA nB M \<Longrightarrow> i \<le> nA \<Longrightarrow> i < length M \<and> length (M ! i) = Suc nB"
  by (simp add: grid_def)

lemma set_trace_grid: "grid nA nB M \<Longrightarrow> grid nA nB (set_trace M i j t)"
  unfolding grid_def set_trace_def
  by (auto simp: nth_list_update_total less_Suc_eq_le)

lemma set_path_grid: "grid nA nB M \<Longrightarrow> grid nA nB (set_path M i j t)"
  unfolding grid_def set_path_def
  by (auto simp: nth_list_update_total less_Suc_eq_le)

lemma set_trace_at:
  "grid nA nB M \<Longrightarrow> i \<le> nA \<Longrightarrow> j \<le> nB \<Longrightarrow>
   trace (set_trace M i j t ! i' ! j') = (if i' = i \<and> j' = j then t else trace (M ! i' ! j'))"
  unfolding grid_def set_trace_def
  by (auto simp: nth_list_update_total less_Suc_eq_le)

lemma set_path_at: "trace (set_path M i j p ! i' ! j') = trace (M ! i' ! j')"
proof (cases "i' = i \<and> i < length M")
  case True
  then show ?thesis
    by (cases "j' = j \<and> j < length (M ! i)") (auto simp: set_path_def nth_list_update_total)
next
  case False
  then show ?thesis by (auto simp: set_path_def nth_list_update_total)
qed

lemma trace_bits_all: "((DIAGONAL OR HORIZONTAL) OR VERTICAL :: trace_bits) = 7"
  by (simp add: DIAGONAL_def HORIZONTAL_def VERTICAL_def)

lemma replicate_update_same: "(replicate n x)[j := x] = replicate n x"
  by (auto simp: list_eq_iff_nth_eq nth_list_update_total)

lemma tie_cell:
  assumes "0 < eps" "1 \<le> j" "j < n" "align_score kA (sB ! (j - 1)) = 0"
  shows "nw_align_cell eps align_score sB kA 0 0 i j (score, 0, replicate n 0, M)
         = (0, 0, replicate n 0, set_trace M i j 7)"
  using assms by (simp add: Let_def replicate_update_same trace_bits_all)

lemma tie_traces_cell:
  assumes "tie_traces nA nB i j M" "1 \<le> i" "i \<le> nA" "1 \<le> j" "j \<le> nB"
  shows "tie_traces nA nB i (Suc j) (set_trace M i j 7)"
  using assms unfolding tie_traces_def
  by (auto simp: set_trace_grid set_trace_at)

lemma tie_traces_next_row:
  assumes "tie_traces nA nB i (Suc nB) M"
  shows "tie_traces nA nB (Suc i) 1 M"
proof -
  have "trace (M ! i' ! j') = 7"
    if "1 \<le> i'" "1 \<le> j'" "j' \<le> nB" "i' < Suc i \<or> i' = Suc i \<and> j' < 1" for i' j'
  proof -
    have "i' < i \<or> i' = i \<and> j' < Suc nB" using that by auto
    then show ?thesis using assms that unfolding tie_traces_def by blast
  qed
  then show ?thesis using assms unfolding tie_traces_def by blast
qed

lemma tie_row_cells:
  assumes "0 < eps" "1 \<le> i" "i \<le> nA" "1 \<le> nB"
    and sc: "\<And>j. 1 \<le> j \<Longrightarrow> j \<le> nB \<Longrightarrow> align_score kA (sB ! (j - 1)) = 0"
    and inv: "tie_traces nA nB i 1 M"
  shows "\<exists>s M'. fold (nw_align_cell eps align_score sB kA 0 0 i) [1..<nB]
                    (score, 0, replicate (Suc nB) 0, M) = (s, 0, replicate (Suc nB) 0, M')
                \<and> tie_traces nA nB i nB M'"
proof -
  let ?P = "\<lambda>k st. \<exists>(s::real) M'. st = (s, 0::real, replicate (Suc nB) (0::real), M') \<and> tie_traces nA nB i k M'"
  have "?P nB (fold (nw_align_cell eps align_score sB kA 0 0 i) [1..<nB]
                 (score, 0, replicate (Suc nB) 0, M))"
  proof (rule fold_upt_invariant[of ?P 1 _ nB])
    show "?P 1 (score, 0, replicate (Suc nB) 0, M)" using inv by simp
    show "1 \<le> nB" by fact
  next
    fix k st
    assume k: "1 \<le> k" "k < nB" and "?P k st"
    then obtain s M' where st: "st = (s, 0, replicate (Suc nB) 0, M')"
      and tt: "tie_traces nA nB i k M'" by blast
    have "nw_align_cell eps align_score sB kA 0 0 i k st
          = (0, 0, replicate (Suc nB) 0, set_trace M' i k 7)"
      unfolding st using assms(1) k sc[of k] by (intro tie_cell) simp_all
    moreover have "tie_traces nA nB i (Suc k) (set_trace M' i k 7)"
      using tt assms(2,3) k by (intro tie_traces_cell) simp_all
    ultimately show "?P (Suc k) (nw_align_cell eps align_score sB kA 0 0 i k st)" by simp
  qed
  then show ?thesis by simp
qed

lemma tie_row_last:
  assumes "0 < eps" "1 \<le> i" "i \<le> nA" "1 \<le> nB"
    and sc: "\<And>j. 1 \<le> j \<Longrightarrow> j \<le> nB \<Longrightarrow> align_score kA (sB ! (j - 1)) = 0"
    and inv: "tie_traces nA nB i 1 M"
  shows "\<exists>M'. nw_align_cell eps align_score sB kA 0 0 i nB
                 (fold (nw_align_cell eps align_score sB kA 0 0 i) [1..<nB]
                    (score, 0, replicate (Suc nB) 0, M))
               = (0, 0, replicate (Suc nB) 0, M')
             \<and> tie_traces nA nB (Suc i) 1 M'"
proof -
  obtain s M' where f: "fold (nw_align_cell eps align_score sB kA 0 0 i) [1..<nB]
                    (score, 0, replicate (Suc nB) 0, M) = (s, 0, replicate (Suc nB) 0, M')"
    and tt: "tie_traces nA nB i nB M'"
    using tie_row_cells[of eps i nA nB align_score kA sB M score] assms by blast
  have "nw_align_cell eps align_score sB kA 0 0 i nB (s, 0, replicate (Suc nB) 0, M')
        = (0, 0, replicate (Suc nB) 0, set_trace M' i nB 7)"
    using assms(1,4) sc[of nB] by (intro tie_cell) simp_all
  moreover have "tie_traces nA nB (Suc i) 1 (set_trace M' i nB 7)"
    using tt assms(2,3,4) by (intro tie_traces_next_row tie_traces_cell) simp_all
  ultimately show ?thesis unfolding f by simp
qed

lemma tie_row:
  assumes "0 < eps" "1 \<le> i" "i \<le> nA" "1 \<le> nB"
    and g: "left_gap_extend_B g = 0" "right_gap_extend_B g = 0"
    and sc: "\<And>j. 1 \<le> j \<Longrightarrow> j \<le> nB \<Longrightarrow> align_score (sA ! (i - 1)) (sB ! (j - 1)) = 0"
    and inv: "tie_traces nA nB i 1 M"
  shows "\<exists>M'. nw_align_row eps align_score sA sB nB 0 0 g i (score, temp, replicate (Suc nB) 0, M)
               = (0, 0, replicate (Suc nB) 0, M')
             \<and> tie_traces nA nB (Suc i) 1 M'"
  using tie_row_last[of eps i nA nB align_score "sA ! (i - 1)" sB M score] assms
  by (simp add: g Let_def replicate_update_same del: replicate_Suc)

lemma set_path_tie: "tie_traces nA nB i j M \<Longrightarrow> tie_traces nA nB i j (set_path M i' j' p)"
  unfolding tie_traces_def by (simp add: set_path_grid set_path_at)

lemma create_tie:
  "\<exists>M. PathGenerator_create_NWSW nA nB Global strand =
         Inr \<lparr>pg_M = M, pg_gaps = NoGaps, pg_nA = nA, pg_nB = nB, pg_iA = 0, pg_iB = 0,
              pg_mode = Global, pg_algorithm = NeedlemanWunschSmithWaterman, pg_length = 0,
              pg_strand = strand\<rparr>
       \<and> tie_traces nA nB 1 1 M"
proof -
  define M0 where "M0 = replicate (Suc nA) (replicate (Suc nB) \<lparr>trace = 0, path = 0\<rparr>)"
  have g0: "grid nA nB M0"
    unfolding grid_def M0_def by (simp del: replicate_Suc)
  let ?P1 = "\<lambda>k M. grid nA nB M \<and> (\<forall>i'. i' < k \<longrightarrow> trace (M ! i' ! 0) = 2)"
  define M1 where "M1 = fold (\<lambda>i M. set_trace M i 0 VERTICAL) [0..<Suc nA] M0"
  have "?P1 (Suc nA) (fold (\<lambda>i M. set_trace M i 0 VERTICAL) [0..<Suc nA] M0)"
    by (rule fold_upt_invariant[of ?P1 0 _ "Suc nA"])
       (auto simp: g0 set_trace_grid set_trace_at VERTICAL_def less_Suc_eq)
  then have m1: "grid nA nB M1" "\<And>i'. i' \<le> nA \<Longrightarrow> trace (M1 ! i' ! 0) = 2"
    unfolding M1_def by (auto simp: less_Suc_eq_le)
  define M2 where "M2 = set_trace M1 0 0 0"
  have m2: "grid nA nB M2" "\<And>i'. 1 \<le> i' \<Longrightarrow> i' \<le> nA \<Longrightarrow> trace (M2 ! i' ! 0) = 2"
    unfolding M2_def using m1 by (auto simp: set_trace_grid set_trace_at)
  let ?P2 = "\<lambda>k M. grid nA nB M \<and> (\<forall>i'. 1 \<le> i' \<and> i' \<le> nA \<longrightarrow> trace (M ! i' ! 0) = 2)
                   \<and> (\<forall>j'. 1 \<le> j' \<and> j' < k \<longrightarrow> trace (M ! 0 ! j') = 1)"
  define M3 where "M3 = fold (\<lambda>i M. set_trace M 0 i HORIZONTAL) [1..<Suc nB] M2"
  have "?P2 (Suc nB) (fold (\<lambda>i M. set_trace M 0 i HORIZONTAL) [1..<Suc nB] M2)"
    by (rule fold_upt_invariant[of ?P2 1 _ "Suc nB"])
       (auto simp: m2 set_trace_grid set_trace_at HORIZONTAL_def less_Suc_eq)
  then have m3: "tie_traces nA nB 1 1 M3"
    unfolding M3_def tie_traces_def by (auto simp: less_Suc_eq_le)
  have "PathGenerator_create_NWSW nA nB Global strand =
         Inr \<lparr>pg_M = set_path M3 0 0 0, pg_gaps = NoGaps, pg_nA = nA, pg_nB = nB, pg_iA = 0,
              pg_iB = 0, pg_mode = Global, pg_algorithm = NeedlemanWunschSmithWaterman,
              pg_length = 0, pg_strand = strand\<rparr>"
    unfolding PathGenerator_create_NWSW_def M3_def M2_def M1_def M0_def
    by (simp add: Let_def)
  then show ?thesis using set_path_tie[OF m3] by blast
qed

lemma tie_scores:
  "i - 1 < nA \<Longrightarrow> j - 1 < nB \<Longrightarrow>
   COMPARE_SCORE Aligner_init (replicate nA 0 ! (i - 1)) (replicate nB 1 ! (j - 1)) = 0"
  by (simp add: COMPARE_SCORE_def Aligner_init_def)

lemma align_tie:
  assumes "1 \<le> nA" "1 \<le> nB"
  shows "\<exists>M. Aligner_needlemanwunsch_align_compare Aligner_init
               (replicate nA 0) nA (replicate nB 1) nB (CHR ''+'') =
             Inr (0, \<lparr>pg_M = M, pg_gaps = NoGaps, pg_nA = nA, pg_nB = nB, pg_iA = 0, pg_iB = 0,
                      pg_mode = Global, pg_algorithm = NeedlemanWunschSmithWaterman,
                      pg_length = 0, pg_strand = CHR ''+''\<rparr>)
           \<and> tie_traces nA nB (Suc nA) 1 M"
proof -
  define eps :: real where "eps = 1 / 1000000"
  define sA :: "int list" where "sA = replicate nA 0"
  define sB :: "int list" where "sB = replicate nB 1"
  define Z :: "real list" where "Z = replicate (Suc nB) 0"
  define g where "g = \<lparr>left_gap_open_A = 0::real, left_gap_open_B = 0, left_gap_extend_A = 0,
    left_gap_extend_B = 0, right_gap_open_A = 0, right_gap_open_B = 0, right_gap_extend_A = 0,
    right_gap_extend_B = 0\<rparr>"
  have eps: "0 < eps" by (simp add: eps_def)
  have g: "left_gap_extend_B g = 0" "right_gap_extend_B g = 0" "left_gap_extend_A g = 0"
    "right_gap_extend_A g = 0" by (simp_all add: g_def)
  have sw: "strand_switch Aligner_init (CHR ''+'') = Inr g"
    by (simp add: strand_switch_def Aligner_init_def g_def)
  obtain M0 where cr: "PathGenerator_create_NWSW nA nB Global (CHR ''+'') =
         Inr \<lparr>pg_M = M0, pg_gaps = NoGaps, pg_nA = nA, pg_nB = nB, pg_iA = 0, pg_iB = 0,
              pg_mode = Global, pg_algorithm = NeedlemanWunschSmithWaterman, pg_length = 0,
              pg_strand = CHR ''+''\<rparr>"
    and t0: "tie_traces nA nB 1 1 M0"
    using create_tie by blast
  have sc: "COMPARE_SCORE Aligner_init (sA ! (i - 1)) (sB ! (j - 1)) = 0"
    if "1 \<le> i" "i \<le> nA" "1 \<le> j" "j \<le> nB" for i j
    unfolding sA_def sB_def using that by (intro tie_scores) simp_all
  let ?P = "\<lambda>i st. \<exists>(s::real) (t::real) M'. st = (s, t, Z, M') \<and> tie_traces nA nB i 1 M'"
  have "?P nA (fold (nw_align_row eps (COMPARE_SCORE Aligner_init) sA sB nB 0 0 g) [1..<nA]
                 (0, 0, Z, M0))"
  proof (rule fold_upt_invariant[of ?P 1 _ nA])
    show "?P 1 (0, 0, Z, M0)" using t0 by simp
    show "1 \<le> nA" by fact
  next
    fix i st
    assume i: "1 \<le> i" "i < nA" and "?P i st"
    then obtain s t M' where st: "st = (s, t, Z, M')" and tt: "tie_traces nA nB i 1 M'"
      by blast
    have "\<exists>M''. nw_align_row eps (COMPARE_SCORE Aligner_init) sA sB nB 0 0 g i
                  (s, t, replicate (Suc nB) 0, M') = (0, 0, replicate (Suc nB) 0, M'')
                \<and> tie_traces nA nB (Suc i) 1 M''"
      using eps i assms(2) g(1,2) sc tt
      by (intro tie_row[of eps i nA nB g "COMPARE_SCORE Aligner_init" sA sB M']) simp_all
    then show "?P (Suc i) (nw_align_row eps (COMPARE_SCORE Aligner_init) sA sB nB 0 0 g i st)"
      unfolding st Z_def by blast
  qed
  then obtain s t M1 where rows:
      "fold (nw_align_row eps (COMPARE_SCORE Aligner_init) sA sB nB 0 0 g) [1..<nA]
         (0, 0, Z, M0) = (s, t, Z, M1)"
    and t1: "tie_traces nA nB nA 1 M1"
    by blast
  obtain M2 where last:
      "nw_align_cell eps (COMPARE_SCORE Aligner_init) sB (sA ! (nA - 1)) 0 0 nA nB
         (fold (nw_align_cell eps (COMPARE_SCORE Aligner_init) sB (sA ! (nA - 1)) 0 0 nA)
            [1..<nB] (s, 0, Z, M1)) = (0, 0, Z, M2)"
    and t2: "tie_traces nA nB (Suc nA) 1 M2"
    using tie_row_last[of eps nA nA nB "COMPARE_SCORE Aligner_init" "sA ! (nA - 1)" sB M1 s]
      eps assms sc t1 unfolding Z_def by auto
  have fields: "epsilon Aligner_init = eps" "extend_internal_insertion_score Aligner_init = 0"
    "extend_internal_deletion_score Aligner_init = 0"
    by (simp_all add: Aligner_init_def eps_def)
  have row0: "map (\<lambda>j::nat. 0::real) [0..<Suc nB] = Z"
    unfolding Z_def by (simp add: map_replicate_const del: upt_Suc replicate_Suc)
  have z: "Z ! 0 = 0" "Z[0 := 0] = Z"
    unfolding Z_def by (simp_all add: replicate_update_same del: replicate_Suc)
  have "Aligner_needlemanwunsch_align_compare Aligner_init sA nA sB nB (CHR ''+'') =
          Inr (0, \<lparr>pg_M = set_path M2 nA nB 0, pg_gaps = NoGaps, pg_nA = nA, pg_nB = nB,
                   pg_iA = 0, pg_iB = 0, pg_mode = Global,
                   pg_algorithm = NeedlemanWunschSmithWaterman, pg_length = 0,
                   pg_strand = CHR ''+''\<rparr>)"
    unfolding Aligner_needlemanwunsch_align_compare_def NEEDLEMANWUNSCH_ALIGN_def sw cr
    by (simp only: Let_def sum.case PathGenerator.select_convs PathGenerator.update_convs
          row0 fields g z mult_zero_right rows last prod.case)
  then show ?thesis using set_path_tie[OF t2] unfolding sA_def sB_def by blast
qed

lemma upt_eval: "[i..<j] = (if i < j then i # [Suc i..<j] else [])"
  by (rule upt_rec)

lemma replicate_eval: "replicate n x = (if n = 0 then [] else x # replicate (n - 1) x)"
  by (cases n) simp_all

lemma list_update_eval: "(x # xs)[i := v] = (if i = 0 then v # xs else x # xs[i - 1 := v])"
  by (cases i) simp_all

lemmas eval_simps = upt_eval replicate_eval list_update_eval Let_def

lemma PY_SSIZE_T_MAX_eval: "PY_SSIZE_T_MAX = 9223372036854775807"
  by (simp add: PY_SSIZE_T_MAX_def)

lemma ssize_eval:
  "- 9223372036854775808 \<le> x \<Longrightarrow> x \<le> 9223372036854775807 \<Longrightarrow> ssize x = x"
  by (simp add: ssize_def)

lemma trace_bit_eval:
  "(1::5 word) AND HORIZONTAL \<noteq> 0" "(2::5 word) AND VERTICAL \<noteq> 0"
  "(7::5 word) AND HORIZONTAL \<noteq> 0" "(7::5 word) AND VERTICAL \<noteq> 0"
  "(7::5 word) AND DIAGONAL \<noteq> 0"
  by (simp_all add: HORIZONTAL_def VERTICAL_def DIAGONAL_def)

lemmas nw_length_eval =
  SAFE_ADD_def ssize_eval PY_SSIZE_T_MAX_eval OVERFLOW_ERROR_def MEMORY_ERROR_def trace_bit_eval

lemma tie_traces_final:
  assumes "tie_traces nA nB (Suc nA) 1 M"
  shows "\<And>j. 1 \<le> j \<Longrightarrow> j \<le> nB \<Longrightarrow> trace (M ! 0 ! j) = 1"
    and "\<And>i. 1 \<le> i \<Longrightarrow> i \<le> nA \<Longrightarrow> trace (M ! i ! 0) = 2"
    and "\<And>i j. 1 \<le> i \<Longrightarrow> i \<le> nA \<Longrightarrow> 1 \<le> j \<Longrightarrow> j \<le> nB \<Longrightarrow> trace (M ! i ! j) = 7"
  using assms unfolding tie_traces_def by (auto simp: less_Suc_eq_le)

lemma tie_rows_36:
  assumes "tie_traces 37 20 (Suc 37) 1 M"
  shows "fold (nw_length_row M 20) [1..<37]
           (fold (nw_length_first_cell M) [1..<Suc 20]
              ((replicate (Suc 20) 0)[0 := 1], MEMORY_ERROR))
         = (tie_counts_36, OVERFLOW_ERROR)"
  unfolding tie_counts_36_def
  by (simp add: nw_length_eval eval_simps tie_traces_final[OF assms] cong: let_weak_cong)

lemma tie_row_37:
  assumes "tie_traces 37 20 (Suc 37) 1 M"
  shows "snd (nw_length_row M 20 37 (tie_counts_36, OVERFLOW_ERROR)) = 8001394856851978759"
  unfolding tie_counts_36_def
  by (simp add: nw_length_eval eval_simps tie_traces_final[OF assms] cong: let_weak_cong)

lemma tie_length_37_20:
  assumes "tie_traces 37 20 (Suc 37) 1 (pg_M p)" "pg_nA p = 37" "pg_nB p = 20"
  shows "PathGenerator_needlemanwunsch_length p = 8001394856851978759"
proof -
  have "[1..<Suc 37] = [1..<37] @ [37]" by (rule upt_Suc_append) simp
  then show ?thesis
    unfolding PathGenerator_needlemanwunsch_length_def assms(2,3)
    by (simp only: fold_append fold_simps o_apply tie_rows_36[OF assms(1)] tie_row_37[OF assms(1)])
qed

text \<open>
  C6. The path count does test before it adds (\<open>term > PY_SSIZE_T_MAX - s\<close>) and never wraps
  around, but an overflow is not always reported. \<open>SAFE_ADD(t, s)\<close> only looks at the
  sentinel in \<open>s\<close>; when the term \<open>t\<close> is a count that has already overflowed, the
  sentinel \<open>- 1\<close> is added to \<open>s\<close> as if it were a number. With the default aligner, a
  sequence of 37 equal letters and a sequence of 20 letters that differ from them, the
  alignment succeeds with score 0, the count of the cell \<open>(36, 20)\<close> is \<open>OVERFLOW_ERROR\<close>,
  and the length query nevertheless returns 8001394856851978759 with no exception.
\<close>

theorem path_count_overflow_unreported:
  "\<exists>p. Aligner_needlemanwunsch_align_compare Aligner_init
          (replicate 37 0) 37 (replicate 20 1) 20 (CHR ''+'') = Inr (0, p)
     \<and> snd (fold (nw_length_row (pg_M p) 20) [1..<37]
              (fold (nw_length_first_cell (pg_M p)) [1..<Suc 20]
                 ((replicate (Suc 20) 0)[0 := 1], MEMORY_ERROR))) = OVERFLOW_ERROR
     \<and> fst (PathGenerator_length p) = (8001394856851978759, None)"
proof -
  obtain M where al: "Aligner_needlemanwunsch_align_compare Aligner_init
               (replicate 37 0) 37 (replicate 20 1) 20 (CHR ''+'') =
             Inr (0, \<lparr>pg_M = M, pg_gaps = NoGaps, pg_nA = 37, pg_nB = 20, pg_iA = 0, pg_iB = 0,
                      pg_mode = Global, pg_algorithm = NeedlemanWunschSmithWaterman,
                      pg_length = 0, pg_strand = CHR ''+''\<rparr>)"
    and tt: "tie_traces 37 20 (Suc 37) 1 M"
    using align_tie[of 37 20] by auto
  let ?p = "\<lparr>pg_M = M, pg_gaps = NoGaps, pg_nA = 37, pg_nB = 20, pg_iA = 0, pg_iB = 0,
                      pg_mode = Global, pg_algorithm = NeedlemanWunschSmithWaterman,
                      pg_length = 0, pg_strand = CHR ''+''\<rparr>"
  have len: "PathGenerator_needlemanwunsch_length ?p = 8001394856851978759"
    using tt by (intro tie_length_37_20) simp_all
  have "fst (PathGenerator_length ?p) = (8001394856851978759, None)"
    by (simp add: PathGenerator_length_def compute_length_def len length_exception_def
        OVERFLOW_ERROR_def MEMORY_ERROR_def)
  moreover have "snd (fold (nw_length_row (pg_M ?p) 20) [1..<37]
              (fold (nw_length_first_cell (pg_M ?p)) [1..<Suc 20]
                 ((replicate (Suc 20) 0)[0 := 1], MEMORY_ERROR))) = OVERFLOW_ERROR"
    by (simp only: PathGenerator.select_convs tie_rows_36[OF tt] snd_conv)
  ultimately show ?thesis using al by blast
qed

end
